theory Spec2Isabelle
  imports
    Complex_Main
    "HOL-Library.Char_ord"
    "HOL-Library.List_Lexorder"
    "HOL-Library.Multiset"
    "HOL-Library.Option_ord"
begin

section \<open>The strategy-optimization route: data\<close>

text \<open>
  The route \<^verbatim>\<open>GET /optimize/:userId\<close> of \<^verbatim>\<open>src/routes/sync.ts\<close> (second document,
  lines 226-407) runs one aggregation pipeline over the \<^verbatim>\<open>Trade\<close> collection and then
  computes a correlation and a list of suggestions in TypeScript.

  The numbers of the aggregation are exact reals, and counts are naturals. The
  correlation loop is given in exact arithmetic and, further below, under a rounding,
  of which the arithmetic of IEEE doubles is an instance. Strings are byte lists, compared lexicographically, which
  is the comparison the aggregation engine uses for an ascending sort without collation.
  A \<^verbatim>\<open>riskLevel\<close> that is absent from a stored document is \<open>None\<close>; an absent value
  sorts before every string, as \<open>None\<close> does in the order on \<open>option\<close>.
\<close>

record trade =
  userId :: string
  strategyId :: string
  tradeDate :: int
  riskLevel :: "string option"
  outcome :: real
  win :: bool

text \<open>Failures of the aggregation: an expression that raises aborts the whole query.\<close>

datatype error = DivideByZero | SwitchNoMatch

text \<open>The documents after the \<^verbatim>\<open>$project\<close> stage (lines 246-264).\<close>

record projected =
  pj_strategyId :: string
  pj_riskLevel :: "string option"
  pj_outcome :: real
  pj_win :: bool
  pj_tradeDate :: int
  pj_riskScore :: real

text \<open>The entries of the three facets (lines 266-323).\<close>

record strategy_stat =
  ss_strategyId :: string
  ss_total :: nat
  ss_wins :: nat
  ss_winRate :: real

record risk_stat =
  rs_riskLevel :: "string option"
  rs_avgOutcome :: "real option"
  rs_count :: nat

record per_trade =
  pt_riskScore :: real
  pt_outcome :: real

record facet =
  byStrategy :: "strategy_stat list"
  byRisk :: "risk_stat list"
  perTrade :: "per_trade list"

section \<open>Operators of the aggregation engine\<close>

text \<open>\<^verbatim>\<open>$divide\<close> raises on a zero divisor.\<close>

definition divide_op :: "real \<Rightarrow> real \<Rightarrow> error + real" where
  "divide_op a b = (if b = 0 then Inl DivideByZero else Inr (a / b))"

text \<open>
  \<^verbatim>\<open>$switch\<close> takes the first branch whose case holds, the default when none does, and
  raises when none does and there is no default.
\<close>

fun switch_op :: "(bool \<times> 'a) list \<Rightarrow> 'a option \<Rightarrow> error + 'a" where
  "switch_op [] None = Inl SwitchNoMatch"
| "switch_op [] (Some d) = Inr d"
| "switch_op ((c, v) # bs) d = (if c then Inr v else switch_op bs d)"

text \<open>A stage that evaluates an expression on every document stops at the first failure.\<close>

fun traverse :: "('a \<Rightarrow> error + 'b) \<Rightarrow> 'a list \<Rightarrow> error + 'b list" where
  "traverse f [] = Inr []"
| "traverse f (x # xs) =
     (case f x of
        Inl e \<Rightarrow> Inl e
      | Inr y \<Rightarrow> (case traverse f xs of Inl e \<Rightarrow> Inl e | Inr ys \<Rightarrow> Inr (y # ys)))"

text \<open>
  \<^verbatim>\<open>$group\<close>: every document is added to the accumulators of the group of its key; a key
  seen for the first time opens a new group, after the groups that exist. The source
  does not depend on the order in which the engine emits the groups (each facet sorts
  them); the model emits them in the order of first occurrence.
\<close>

fun upsert :: "'k \<Rightarrow> ('a \<Rightarrow> 'a) \<Rightarrow> 'a \<Rightarrow> ('k \<times> 'a) list \<Rightarrow> ('k \<times> 'a) list" where
  "upsert k f i [] = [(k, f i)]"
| "upsert k f i ((k', a) # gs) =
     (if k' = k then (k', f a) # gs else (k', a) # upsert k f i gs)"

definition group_by ::
  "('d \<Rightarrow> 'k) \<Rightarrow> 'a \<Rightarrow> ('d \<Rightarrow> 'a \<Rightarrow> 'a) \<Rightarrow> 'd list \<Rightarrow> ('k \<times> 'a) list" where
  "group_by key init step docs = fold (\<lambda>d gs. upsert (key d) (step d) init gs) docs []"

text \<open>\<^verbatim>\<open>$avg\<close> is the sum over the count, and null for a group without a number.\<close>

definition avg_op :: "real \<times> nat \<Rightarrow> real option" where
  "avg_op sc = (if snd sc = 0 then None else Some (fst sc / real (snd sc)))"

section \<open>The pipeline\<close>

definition days :: int where
  "days = 30"

text \<open>
  Instants are milliseconds since the epoch; \<^verbatim>\<open>setDate(getDate() - days)\<close> moves the
  instant back by \<open>days\<close> calendar days of 24 hours. The source counts the days in
  local time, where a day across a daylight-saving change has 23 or 25 hours.
\<close>

definition windowStart :: "int \<Rightarrow> int" where
  "windowStart now = now - days * 86400000"

text \<open>
  \<^verbatim>\<open>$match\<close> (lines 240-245). The identifier is compared as it is written; the driver
  reads it as hexadecimal digits, so that two spellings that differ in the case of a
  letter are one identifier for the database.
\<close>

definition matchStage :: "string \<Rightarrow> int \<Rightarrow> trade list \<Rightarrow> trade list" where
  "matchStage u ws store = filter (\<lambda>t. userId t = u \<and> ws \<le> tradeDate t) store"

text \<open>The \<^verbatim>\<open>riskScore\<close> expression (lines 253-262).\<close>

definition riskScore :: "string option \<Rightarrow> error + real" where
  "riskScore rl =
     switch_op
       [(rl = Some ''low'', 1), (rl = Some ''medium'', 2), (rl = Some ''high'', 3)]
       (Some 2)"

definition projectTrade :: "trade \<Rightarrow> error + projected" where
  "projectTrade t =
     (case riskScore (riskLevel t) of
        Inl e \<Rightarrow> Inl e
      | Inr s \<Rightarrow>
          Inr \<lparr>pj_strategyId = strategyId t, pj_riskLevel = riskLevel t,
               pj_outcome = outcome t, pj_win = win t, pj_tradeDate = tradeDate t,
               pj_riskScore = s\<rparr>)"

definition projectStage :: "trade list \<Rightarrow> error + projected list" where
  "projectStage ts = traverse projectTrade ts"

text \<open>Facet \<^verbatim>\<open>byStrategy\<close> (lines 267-295): group, project, sort.\<close>

definition strategyStep :: "projected \<Rightarrow> nat \<times> nat \<Rightarrow> nat \<times> nat" where
  "strategyStep d acc = (fst acc + 1, snd acc + (if pj_win d = True then 1 else 0))"

definition strategyProject :: "string \<times> nat \<times> nat \<Rightarrow> error + strategy_stat" where
  "strategyProject g =
     (let total = fst (snd g); wins = snd (snd g) in
      case (if total > 0 then divide_op (real wins) (real total) else Inr 0) of
        Inl e \<Rightarrow> Inl e
      | Inr r \<Rightarrow>
          Inr \<lparr>ss_strategyId = fst g, ss_total = total, ss_wins = wins, ss_winRate = r\<rparr>)"

definition byStrategyFacet :: "projected list \<Rightarrow> error + strategy_stat list" where
  "byStrategyFacet docs =
     (case traverse strategyProject (group_by pj_strategyId (0, 0) strategyStep docs) of
        Inl e \<Rightarrow> Inl e
      | Inr stats \<Rightarrow> Inr (sort_key ss_winRate stats))"

text \<open>Facet \<^verbatim>\<open>byRisk\<close> (lines 296-313).\<close>

definition riskStep :: "projected \<Rightarrow> real \<times> nat \<Rightarrow> real \<times> nat" where
  "riskStep d acc = (fst acc + pj_outcome d, snd acc + 1)"

definition riskProject :: "string option \<times> real \<times> nat \<Rightarrow> risk_stat" where
  "riskProject g =
     \<lparr>rs_riskLevel = fst g, rs_avgOutcome = avg_op (snd g), rs_count = snd (snd g)\<rparr>"

definition byRiskFacet :: "projected list \<Rightarrow> risk_stat list" where
  "byRiskFacet docs =
     sort_key rs_riskLevel (map riskProject (group_by pj_riskLevel (0, 0) riskStep docs))"

text \<open>Facet \<^verbatim>\<open>perTrade\<close> (lines 314-322).\<close>

definition perTradeFacet :: "projected list \<Rightarrow> per_trade list" where
  "perTradeFacet docs =
     map (\<lambda>d. \<lparr>pt_riskScore = pj_riskScore d, pt_outcome = pj_outcome d\<rparr>) docs"

definition facetStage :: "projected list \<Rightarrow> error + facet" where
  "facetStage docs =
     (case byStrategyFacet docs of
        Inl e \<Rightarrow> Inl e
      | Inr bs \<Rightarrow>
          Inr \<lparr>byStrategy = bs, byRisk = byRiskFacet docs, perTrade = perTradeFacet docs\<rparr>)"

text \<open>The pipeline on the trades that the \<^verbatim>\<open>$match\<close> stage lets through.\<close>

definition analyse :: "trade list \<Rightarrow> error + facet" where
  "analyse ts = (case projectStage ts of Inl e \<Rightarrow> Inl e | Inr docs \<Rightarrow> facetStage docs)"

definition aggregate :: "string \<Rightarrow> int \<Rightarrow> trade list \<Rightarrow> error + facet" where
  "aggregate u ws store = analyse (matchStage u ws store)"

section \<open>The computation in TypeScript\<close>

text \<open>
  JavaScript arithmetic does not throw: a square root of a negative number is NaN and a
  division by zero is NaN or an infinity. These values are kept apart from the reals.
\<close>

datatype number = Num real | NaN | PosInf | NegInf

definition js_sqrt :: "real \<Rightarrow> number" where
  "js_sqrt x = (if x < 0 then NaN else Num (sqrt x))"

fun js_div :: "real \<Rightarrow> number \<Rightarrow> number" where
  "js_div a (Num b) =
     (if b \<noteq> 0 then Num (a / b) else if a = 0 then NaN else if a > 0 then PosInf else NegInf)"
| "js_div a NaN = NaN"
| "js_div a PosInf = Num 0"
| "js_div a NegInf = Num 0"

fun js_less :: "number \<Rightarrow> real \<Rightarrow> bool" where
  "js_less (Num a) c = (a < c)"
| "js_less NaN c = False"
| "js_less PosInf c = False"
| "js_less NegInf c = True"

text \<open>Lines 344-346.\<close>

definition underperforming :: "strategy_stat list \<Rightarrow> (string \<times> real) list" where
  "underperforming bs =
     map (\<lambda>s. (ss_strategyId s, ss_winRate s))
       (filter (\<lambda>s. ss_total s > 0 \<and> ss_winRate s < 0.5) bs)"

text \<open>
  Lines 348-371. The loop adds every trade to five running sums; \<^verbatim>\<open>?? 0\<close> never
  applies, as both fields of a \<^verbatim>\<open>perTrade\<close> entry are present.
\<close>

record acc_sums =
  sumX :: real
  sumY :: real
  sumXY :: real
  sumX2 :: real
  sumY2 :: real

definition addTrade :: "per_trade \<Rightarrow> acc_sums \<Rightarrow> acc_sums" where
  "addTrade t s =
     (let x = pt_riskScore t; y = pt_outcome t in
      \<lparr>sumX = sumX s + x, sumY = sumY s + y, sumXY = sumXY s + x * y,
       sumX2 = sumX2 s + x * x, sumY2 = sumY2 s + y * y\<rparr>)"

definition zeroSums :: acc_sums where
  "zeroSums = \<lparr>sumX = 0, sumY = 0, sumXY = 0, sumX2 = 0, sumY2 = 0\<rparr>"

definition numerator :: "nat \<Rightarrow> acc_sums \<Rightarrow> real" where
  "numerator n s = real n * sumXY s - sumX s * sumY s"

definition denomLeft :: "nat \<Rightarrow> acc_sums \<Rightarrow> real" where
  "denomLeft n s = real n * sumX2 s - sumX s * sumX s"

definition denomRight :: "nat \<Rightarrow> acc_sums \<Rightarrow> real" where
  "denomRight n s = real n * sumY2 s - sumY s * sumY s"

definition correlation :: "per_trade list \<Rightarrow> number option" where
  "correlation pts =
     (let n = length pts in
      if n \<ge> 2 then
        (let s = fold addTrade pts zeroSums;
             denominator = js_sqrt (denomLeft n s * denomRight n s)
         in if denominator = Num 0 then None else Some (js_div (numerator n s) denominator))
      else None)"

text \<open>Lines 373-388: the suggestions are pushed one after the other.\<close>

definition push :: "'a list \<Rightarrow> 'a \<Rightarrow> 'a list" where
  "push xs x = xs @ [x]"

definition lowRiskRule :: "risk_stat list \<Rightarrow> bool" where
  "lowRiskRule rs =
     (case find (\<lambda>r. rs_riskLevel r = Some ''low'') rs of
        None \<Rightarrow> False
      | Some lowRisk \<Rightarrow>
          rs_count lowRisk \<ge> 3 \<and>
          (case rs_avgOutcome lowRisk of None \<Rightarrow> False | Some a \<Rightarrow> a > 0))"

definition correlationRule :: "number option \<Rightarrow> bool" where
  "correlationRule c = (case c of None \<Rightarrow> False | Some r \<Rightarrow> js_less r (- 0.2))"

definition suggest ::
  "(string \<times> real) list \<Rightarrow> risk_stat list \<Rightarrow> number option \<Rightarrow> string list" where
  "suggest unders rs c =
     (let s1 = fold (\<lambda>s acc. push acc (''Refine entry criteria for strategy '' @ fst s))
                 unders [];
          s2 = (if lowRiskRule rs then push s1 ''Increase position size for low-risk trades''
                else s1);
          s3 = (if correlationRule c then push s2 ''Reduce exposure to high-risk trades''
                else s2)
      in s3)"

section \<open>The handler\<close>

record report =
  rp_userId :: string
  windowDays :: int
  underperformingStrategies :: "(string \<times> real) list"
  riskAverages :: "risk_stat list"
  riskOutcomeCorrelation :: "number option"
  suggestions :: "string list"
  totalTradesAnalyzed :: nat
  generatedAt :: int

definition buildReport :: "string \<Rightarrow> int \<Rightarrow> facet \<Rightarrow> report" where
  "buildReport u replyTime result =
     (let unders = underperforming (byStrategy result);
          c = correlation (perTrade result)
      in \<lparr>rp_userId = u, windowDays = days, underperformingStrategies = unders,
          riskAverages = byRisk result, riskOutcomeCorrelation = c,
          suggestions = suggest unders (byRisk result) c,
          totalTradesAnalyzed = length (perTrade result), generatedAt = replyTime\<rparr>)"

datatype body = ErrorBody string | ReportBody report

datatype response = Response nat body

text \<open>
  What the handler does to the outside: the query it sends to the trade store and the
  line it logs when it catches an exception.
\<close>

datatype effect = AggregateQuery string int | ConsoleError

text \<open>
  Lines 226-407. The facet stage yields exactly one document, also for no trade, so the
  defaults \<^verbatim>\<open>?? []\<close> for a missing result never apply. \<open>isValid\<close> is
  \<^verbatim>\<open>Types.ObjectId.isValid\<close> of the database driver. The store is \<open>None\<close> when
  the query cannot be answered (the call throws), and the collection otherwise. \<open>now\<close>
  is the instant read for the window, \<open>replyTime\<close> the one read for
  \<^verbatim>\<open>generatedAt\<close>.
\<close>

definition optimize ::
  "(string \<Rightarrow> bool) \<Rightarrow> trade list option \<Rightarrow> int \<Rightarrow> int \<Rightarrow> string \<Rightarrow> response \<times> effect list" where
  "optimize isValid store now replyTime u =
     (if \<not> isValid u then (Response 400 (ErrorBody ''Invalid userId''), [])
      else
        (let query = AggregateQuery u (windowStart now);
             failed = (Response 500 (ErrorBody ''Internal Server Error''), [query, ConsoleError])
         in case store of
              None \<Rightarrow> failed
            | Some ts \<Rightarrow>
                (case aggregate u (windowStart now) ts of
                   Inl e \<Rightarrow> failed
                 | Inr result \<Rightarrow>
                     (Response 200 (ReportBody (buildReport u replyTime result)), [query]))))"

section \<open>The correlation in rounded arithmetic\<close>

text \<open>
  A JavaScript number is an IEEE 754 double, and every operation of lines 349-370
  returns the exact result rounded to a double. \<open>correlation\<close> above is that loop when
  nothing is rounded; here the loop is written for an arbitrary rounding \<open>rnd\<close> of the
  exact result of an operation, so that what is proved of it holds of the program.
  Exact arithmetic is the rounding \<open>Num\<close>; double arithmetic is \<open>round64\<close>: to the
  nearest double, a tie to the even significand, with 53 bits of significand, exponents
  from -1022 to 1023, gradual underflow, and overflow to an infinity. The two zeros of
  the doubles are one number here: only a division by zero tells them apart, and the
  program does not divide by zero.
\<close>

definition nearest_even :: "real \<Rightarrow> int" where
  "nearest_even r =
     (let f = \<lfloor>r\<rfloor>; d = r - of_int f
      in if d < 1 / 2 then f else if 1 / 2 < d then f + 1 else if even f then f else f + 1)"

fun binade_from :: "nat \<Rightarrow> real \<Rightarrow> int" where
  "binade_from 0 a = - 1022"
| "binade_from (Suc k) a =
     (if 2 powi (int k - 1022) \<le> a then int k - 1022 else binade_from k a)"

definition binade :: "real \<Rightarrow> int" where
  "binade x = binade_from 2046 \<bar>x\<bar>"

definition round64 :: "real \<Rightarrow> number" where
  "round64 x =
     (let q = 2 powi (binade x - 52);
          y = of_int (nearest_even (x / q)) * q
      in if 2 ^ 1024 \<le> y then PosInf else if y \<le> - (2 ^ 1024) then NegInf else Num y)"

text \<open>The operations on the special values follow the standard; finite operands are rounded.\<close>

fun neg_op :: "number \<Rightarrow> number" where
  "neg_op (Num a) = Num (- a)"
| "neg_op NaN = NaN"
| "neg_op PosInf = NegInf"
| "neg_op NegInf = PosInf"

fun add_op :: "(real \<Rightarrow> number) \<Rightarrow> number \<Rightarrow> number \<Rightarrow> number" where
  "add_op rnd (Num a) (Num b) = rnd (a + b)"
| "add_op rnd NaN y = NaN"
| "add_op rnd x NaN = NaN"
| "add_op rnd PosInf NegInf = NaN"
| "add_op rnd NegInf PosInf = NaN"
| "add_op rnd PosInf y = PosInf"
| "add_op rnd NegInf y = NegInf"
| "add_op rnd x PosInf = PosInf"
| "add_op rnd x NegInf = NegInf"

definition sub_op :: "(real \<Rightarrow> number) \<Rightarrow> number \<Rightarrow> number \<Rightarrow> number" where
  "sub_op rnd x y = add_op rnd x (neg_op y)"

fun inf_times :: "number \<Rightarrow> real \<Rightarrow> number" where
  "inf_times i a = (if a = 0 then NaN else if 0 < a then i else neg_op i)"

fun mul_op :: "(real \<Rightarrow> number) \<Rightarrow> number \<Rightarrow> number \<Rightarrow> number" where
  "mul_op rnd (Num a) (Num b) = rnd (a * b)"
| "mul_op rnd NaN y = NaN"
| "mul_op rnd x NaN = NaN"
| "mul_op rnd (Num a) y = inf_times y a"
| "mul_op rnd x (Num b) = inf_times x b"
| "mul_op rnd PosInf y = y"
| "mul_op rnd NegInf y = neg_op y"

fun div_op :: "(real \<Rightarrow> number) \<Rightarrow> number \<Rightarrow> number \<Rightarrow> number" where
  "div_op rnd (Num a) (Num b) =
     (if b \<noteq> 0 then rnd (a / b) else if a = 0 then NaN else if 0 < a then PosInf else NegInf)"
| "div_op rnd NaN y = NaN"
| "div_op rnd x NaN = NaN"
| "div_op rnd (Num a) y = Num 0"
| "div_op rnd x (Num b) = (if b < 0 then neg_op x else x)"
| "div_op rnd x y = NaN"

fun sqrt_op :: "(real \<Rightarrow> number) \<Rightarrow> number \<Rightarrow> number" where
  "sqrt_op rnd (Num a) = (if a < 0 then NaN else rnd (sqrt a))"
| "sqrt_op rnd NaN = NaN"
| "sqrt_op rnd PosInf = PosInf"
| "sqrt_op rnd NegInf = NaN"

text \<open>
  A division by zero does not throw in JavaScript. It is recorded as a failure here, so
  that "the program never divides by zero" is a statement about the result.
\<close>

definition divide_checked :: "(real \<Rightarrow> number) \<Rightarrow> number \<Rightarrow> number \<Rightarrow> error + number" where
  "divide_checked rnd a b = (if b = Num 0 then Inl DivideByZero else Inr (div_op rnd a b))"

text \<open>
  Lines 349-370 under a rounding. The fields of a per-trade entry are doubles as they
  come from the database, and the length of the list is a double without rounding.
\<close>

record rounded_sums =
  rsumX :: number
  rsumY :: number
  rsumXY :: number
  rsumX2 :: number
  rsumY2 :: number

definition addTradeIn :: "(real \<Rightarrow> number) \<Rightarrow> per_trade \<Rightarrow> rounded_sums \<Rightarrow> rounded_sums" where
  "addTradeIn rnd t s =
     (let x = Num (pt_riskScore t); y = Num (pt_outcome t) in
      \<lparr>rsumX = add_op rnd (rsumX s) x, rsumY = add_op rnd (rsumY s) y,
       rsumXY = add_op rnd (rsumXY s) (mul_op rnd x y),
       rsumX2 = add_op rnd (rsumX2 s) (mul_op rnd x x),
       rsumY2 = add_op rnd (rsumY2 s) (mul_op rnd y y)\<rparr>)"

definition zeroSumsIn :: rounded_sums where
  "zeroSumsIn = \<lparr>rsumX = Num 0, rsumY = Num 0, rsumXY = Num 0, rsumX2 = Num 0, rsumY2 = Num 0\<rparr>"

definition sumsIn :: "(real \<Rightarrow> number) \<Rightarrow> per_trade list \<Rightarrow> rounded_sums" where
  "sumsIn rnd pts = fold (addTradeIn rnd) pts zeroSumsIn"

definition numeratorIn :: "(real \<Rightarrow> number) \<Rightarrow> per_trade list \<Rightarrow> number" where
  "numeratorIn rnd pts =
     (let n = Num (real (length pts)); s = sumsIn rnd pts in
      sub_op rnd (mul_op rnd n (rsumXY s)) (mul_op rnd (rsumX s) (rsumY s)))"

definition denomLeftIn :: "(real \<Rightarrow> number) \<Rightarrow> per_trade list \<Rightarrow> number" where
  "denomLeftIn rnd pts =
     (let n = Num (real (length pts)); s = sumsIn rnd pts in
      sub_op rnd (mul_op rnd n (rsumX2 s)) (mul_op rnd (rsumX s) (rsumX s)))"

definition denomRightIn :: "(real \<Rightarrow> number) \<Rightarrow> per_trade list \<Rightarrow> number" where
  "denomRightIn rnd pts =
     (let n = Num (real (length pts)); s = sumsIn rnd pts in
      sub_op rnd (mul_op rnd n (rsumY2 s)) (mul_op rnd (rsumY s) (rsumY s)))"

definition denominatorIn :: "(real \<Rightarrow> number) \<Rightarrow> per_trade list \<Rightarrow> number" where
  "denominatorIn rnd pts = sqrt_op rnd (mul_op rnd (denomLeftIn rnd pts) (denomRightIn rnd pts))"

definition correlationIn :: "(real \<Rightarrow> number) \<Rightarrow> per_trade list \<Rightarrow> error + number option" where
  "correlationIn rnd pts =
     (if length pts \<ge> 2 then
        (if denominatorIn rnd pts = Num 0 then Inr None
         else (case divide_checked rnd (numeratorIn rnd pts) (denominatorIn rnd pts) of
                 Inl e \<Rightarrow> Inl e
               | Inr r \<Rightarrow> Inr (Some r)))
      else Inr None)"

section \<open>The runs the engine may make\<close>

text \<open>
  The pipeline fixes neither the order in which \<^verbatim>\<open>$group\<close> emits its groups nor the
  order \<^verbatim>\<open>$sort\<close> gives to documents with equal sort keys: the database documents
  both as arbitrary. \<open>analyse\<close> above is one run (groups in the order of first occurrence,
  stable sort); \<open>analyseRun ts r\<close> holds of every result \<open>r\<close> that the pipeline may
  return for the matched trades \<open>ts\<close>.
\<close>

text \<open>
  An emission of the groups is any arrangement of them; a result of a sort is any
  arrangement of the documents that ascends in the sort key.
\<close>

definition emission :: "'a list \<Rightarrow> 'a list \<Rightarrow> bool" where
  "emission gs gs' \<longleftrightarrow> mset gs' = mset gs"

definition sort_result :: "('a \<Rightarrow> 'b::linorder) \<Rightarrow> 'a list \<Rightarrow> 'a list \<Rightarrow> bool" where
  "sort_result f xs ys \<longleftrightarrow> mset ys = mset xs \<and> sorted (map f ys)"

definition byStrategyRun :: "projected list \<Rightarrow> strategy_stat list \<Rightarrow> bool" where
  "byStrategyRun docs bs \<longleftrightarrow>
     (\<exists>gs stats. emission (group_by pj_strategyId (0, 0) strategyStep docs) gs \<and>
        traverse strategyProject gs = Inr stats \<and> sort_result ss_winRate stats bs)"

definition byRiskRun :: "projected list \<Rightarrow> risk_stat list \<Rightarrow> bool" where
  "byRiskRun docs rs \<longleftrightarrow>
     (\<exists>gs. emission (group_by pj_riskLevel (0, 0) riskStep docs) gs \<and>
        sort_result rs_riskLevel (map riskProject gs) rs)"

definition facetRun :: "projected list \<Rightarrow> facet \<Rightarrow> bool" where
  "facetRun docs r \<longleftrightarrow>
     byStrategyRun docs (byStrategy r) \<and> byRiskRun docs (byRisk r) \<and>
     perTrade r = perTradeFacet docs"

definition analyseRun :: "trade list \<Rightarrow> facet \<Rightarrow> bool" where
  "analyseRun ts r \<longleftrightarrow> (\<exists>docs. projectStage ts = Inr docs \<and> facetRun docs r)"

section \<open>Notions of the specification\<close>

text \<open>
  The statements below compare the code with these notions, which are written from the
  specification and are defined on the trades of the window themselves.
\<close>

text \<open>The ordinal mapping of the data model: low 1, medium 2, high 3, anything else 2.\<close>

definition ordinalScore :: "string option \<Rightarrow> real" where
  "ordinalScore rl =
     (if rl = Some ''low'' then 1 else if rl = Some ''medium'' then 2
      else if rl = Some ''high'' then 3 else 2)"

text \<open>A strategy's trades, its wins, and its win rate: wins over total, 0 when total is 0.\<close>

definition totalOf :: "string \<Rightarrow> trade list \<Rightarrow> nat" where
  "totalOf k ts = length (filter (\<lambda>t. strategyId t = k) ts)"

definition winsOf :: "string \<Rightarrow> trade list \<Rightarrow> nat" where
  "winsOf k ts = length (filter win (filter (\<lambda>t. strategyId t = k) ts))"

definition winRateOf :: "string \<Rightarrow> trade list \<Rightarrow> real" where
  "winRateOf k ts =
     (if totalOf k ts = 0 then 0 else real (winsOf k ts) / real (totalOf k ts))"

text \<open>The outcomes of the trades of one risk level, and their arithmetic mean.\<close>

definition outcomesOf :: "string option \<Rightarrow> trade list \<Rightarrow> real list" where
  "outcomesOf rl ts = map outcome (filter (\<lambda>t. riskLevel t = rl) ts)"

definition mean :: "real list \<Rightarrow> real" where
  "mean xs = sum_list xs / real (length xs)"

text \<open>The points (risk score, outcome) and the product-moment coefficient over them.\<close>

definition points :: "trade list \<Rightarrow> (real \<times> real) list" where
  "points ts = map (\<lambda>t. (ordinalScore (riskLevel t), outcome t)) ts"

definition pearsonNumerator :: "(real \<times> real) list \<Rightarrow> real" where
  "pearsonNumerator ps =
     real (length ps) * (\<Sum>p\<leftarrow>ps. fst p * snd p) - (\<Sum>p\<leftarrow>ps. fst p) * (\<Sum>p\<leftarrow>ps. snd p)"

definition pearsonDenominator :: "(real \<times> real) list \<Rightarrow> real" where
  "pearsonDenominator ps =
     sqrt ((real (length ps) * (\<Sum>p\<leftarrow>ps. fst p * fst p) - (\<Sum>p\<leftarrow>ps. fst p) * (\<Sum>p\<leftarrow>ps. fst p)) *
           (real (length ps) * (\<Sum>p\<leftarrow>ps. snd p * snd p) - (\<Sum>p\<leftarrow>ps. snd p) * (\<Sum>p\<leftarrow>ps. snd p)))"

definition pearson :: "(real \<times> real) list \<Rightarrow> real" where
  "pearson ps = pearsonNumerator ps / pearsonDenominator ps"




text \<open>
  What the stages compute for a trade and for a key, written on the trades: the projected
  document of a trade, the entry of a strategy and the entry of a risk level.
\<close>

definition scored :: "trade \<Rightarrow> projected" where
  "scored t =
     \<lparr>pj_strategyId = strategyId t, pj_riskLevel = riskLevel t, pj_outcome = outcome t,
      pj_win = win t, pj_tradeDate = tradeDate t, pj_riskScore = ordinalScore (riskLevel t)\<rparr>"

definition strategyEntry :: "string \<Rightarrow> trade list \<Rightarrow> strategy_stat" where
  "strategyEntry k ts =
     \<lparr>ss_strategyId = k, ss_total = totalOf k ts, ss_wins = winsOf k ts,
      ss_winRate = winRateOf k ts\<rparr>"

definition riskEntry :: "string option \<Rightarrow> trade list \<Rightarrow> risk_stat" where
  "riskEntry rl ts =
     \<lparr>rs_riskLevel = rl, rs_avgOutcome = Some (mean (outcomesOf rl ts)),
      rs_count = length (outcomesOf rl ts)\<rparr>"

section \<open>The stages never fail\<close>

lemma traverse_total:
  "(\<And>x. x \<in> set xs \<Longrightarrow> f x = Inr (g x)) \<Longrightarrow> traverse f xs = Inr (map g xs)"
  by (induction xs) simp_all

lemma riskScore_ordinal: "riskScore rl = Inr (ordinalScore rl)"
  by (simp add: riskScore_def ordinalScore_def)

section \<open>Grouping\<close>

lemma keys_upsert:
  "map fst (upsert k f i gs) = (if k \<in> fst ` set gs then map fst gs else map fst gs @ [k])"
  by (induction gs) (force+)

lemma keyset_upsert: "fst ` set (upsert k f i gs) = insert k (fst ` set gs)"
  using keys_upsert [of k f i gs, THEN arg_cong, of set] by (auto split: if_splits)

lemma map_of_upsert:
  "map_of (upsert k f i gs) =
     (map_of gs)(k \<mapsto> f (case map_of gs k of None \<Rightarrow> i | Some a \<Rightarrow> a))"
  by (induction gs) (auto simp: fun_eq_iff)

lemma keys_fold_upsert:
  "set (map fst (fold (\<lambda>d gs. upsert (key d) (step d) init gs) docs gs0))
     = fst ` set gs0 \<union> key ` set docs"
  by (induction docs arbitrary: gs0) (simp_all add: keyset_upsert)

lemma distinct_upsert:
  "distinct (map fst gs) \<Longrightarrow> distinct (map fst (upsert k f i gs))"
  by (simp add: keys_upsert)

lemma distinct_fold_upsert:
  "distinct (map fst gs0) \<Longrightarrow>
   distinct (map fst (fold (\<lambda>d gs. upsert (key d) (step d) init gs) docs gs0))"
  by (induction docs arbitrary: gs0) (simp_all add: distinct_upsert)

lemma map_of_fold_upsert:
  "map_of (fold (\<lambda>d gs. upsert (key d) (step d) init gs) docs gs0) k =
     (if k \<in> key ` set docs
      then Some (fold step (filter (\<lambda>d. key d = k) docs)
                   (case map_of gs0 k of None \<Rightarrow> init | Some a \<Rightarrow> a))
      else map_of gs0 k)"
proof (induction docs arbitrary: gs0)
  case Nil
  then show ?case by simp
next
  case (Cons d docs)
  have empty: "key d \<notin> key ` set docs \<Longrightarrow> filter (\<lambda>da. key da = key d) docs = []"
    by (induction docs) auto
  show ?case
    by (simp add: Cons.IH map_of_upsert) (auto split: option.splits simp: empty)
qed

lemma distinct_group_by: "distinct (map fst (group_by key init step docs))"
  by (simp add: group_by_def distinct_fold_upsert)

lemma keys_group_by: "fst ` set (group_by key init step docs) = key ` set docs"
  using keys_fold_upsert [of key step init docs "[]"] by (simp add: group_by_def)

text \<open>A group holds exactly the documents of its key, folded into the accumulators.\<close>

lemma group_by_member:
  "(k, a) \<in> set (group_by key init step docs) \<longleftrightarrow>
     k \<in> key ` set docs \<and> a = fold step (filter (\<lambda>d. key d = k) docs) init"
proof -
  have "(k, a) \<in> set (group_by key init step docs) \<longleftrightarrow>
          map_of (group_by key init step docs) k = Some a"
    using distinct_group_by [of key init step docs] by simp
  also have "\<dots> \<longleftrightarrow> k \<in> key ` set docs \<and> a = fold step (filter (\<lambda>d. key d = k) docs) init"
    by (auto simp: group_by_def map_of_fold_upsert)
  finally show ?thesis .
qed

lemma fold_strategyStep:
  "fold strategyStep ds acc = (fst acc + length ds, snd acc + length (filter pj_win ds))"
  by (induction ds arbitrary: acc) (simp_all add: strategyStep_def)

lemma fold_riskStep:
  "fold riskStep ds acc = (fst acc + sum_list (map pj_outcome ds), snd acc + length ds)"
  by (induction ds arbitrary: acc) (simp_all add: riskStep_def)

section \<open>The correlation: sums and the Cauchy-Schwarz inequality\<close>

lemma fold_addTrade:
  "fold addTrade pts s =
     \<lparr>sumX = sumX s + sum_list (map pt_riskScore pts),
      sumY = sumY s + sum_list (map pt_outcome pts),
      sumXY = sumXY s + sum_list (map (\<lambda>t. pt_riskScore t * pt_outcome t) pts),
      sumX2 = sumX2 s + sum_list (map (\<lambda>t. pt_riskScore t * pt_riskScore t) pts),
      sumY2 = sumY2 s + sum_list (map (\<lambda>t. pt_outcome t * pt_outcome t) pts)\<rparr>"
  by (induction pts arbitrary: s) (simp_all add: addTrade_def Let_def)

lemma sum_list_squares_nonneg: "0 \<le> sum_list (map (\<lambda>x. f x * f x) xs)"
  for f :: "'a \<Rightarrow> real"
  by (induction xs) simp_all

lemma cross_term_bound:
  fixes s a b A B :: real
  assumes "s * s \<le> A * B" "0 \<le> A" "0 \<le> B"
  shows "2 * s * a * b \<le> A * (b * b) + (a * a) * B"
proof -
  have "(2 * s * a * b)\<^sup>2 = 4 * (s * s) * ((a * a) * (b * b))"
    by (simp add: power2_eq_square algebra_simps)
  also have "\<dots> \<le> 4 * (A * B) * ((a * a) * (b * b))"
    using assms(1) by (intro mult_right_mono mult_left_mono) simp_all
  also have "\<dots> \<le> (A * (b * b) + (a * a) * B)\<^sup>2"
  proof -
    have "0 \<le> (A * (b * b) - (a * a) * B)\<^sup>2" by simp
    then show ?thesis by (simp add: power2_eq_square algebra_simps)
  qed
  finally have "(2 * s * a * b)\<^sup>2 \<le> (A * (b * b) + (a * a) * B)\<^sup>2" .
  moreover have "0 \<le> A * (b * b) + (a * a) * B"
    using assms(2,3) by simp
  ultimately show ?thesis
    by (rule power2_le_imp_le)
qed

lemma cauchy_schwarz_list:
  fixes f g :: "'a \<Rightarrow> real"
  shows "sum_list (map (\<lambda>x. f x * g x) xs) * sum_list (map (\<lambda>x. f x * g x) xs)
           \<le> sum_list (map (\<lambda>x. f x * f x) xs) * sum_list (map (\<lambda>x. g x * g x) xs)"
proof (induction xs)
  case Nil
  then show ?case by simp
next
  case (Cons x xs)
  let ?s = "sum_list (map (\<lambda>x. f x * g x) xs)"
  let ?A = "sum_list (map (\<lambda>x. f x * f x) xs)"
  let ?B = "sum_list (map (\<lambda>x. g x * g x) xs)"
  have "2 * ?s * f x * g x \<le> ?A * (g x * g x) + (f x * f x) * ?B"
    using Cons.IH sum_list_squares_nonneg [of f xs] sum_list_squares_nonneg [of g xs]
    by (rule cross_term_bound)
  then show ?case
    using Cons.IH by (simp add: algebra_simps)
qed

lemma centred_products:
  fixes f g :: "'a \<Rightarrow> real"
  shows "sum_list (map (\<lambda>x. (c * f x - u) * (c * g x - v)) xs) =
           c * c * sum_list (map (\<lambda>x. f x * g x) xs) - c * v * sum_list (map f xs)
             - c * u * sum_list (map g xs) + real (length xs) * u * v"
  by (induction xs) (simp_all add: algebra_simps)

section \<open>The facets in terms of the trades\<close>

lemma projectStage_total: "projectStage ts = Inr (map scored ts)"
  unfolding projectStage_def
  by (rule traverse_total) (simp add: projectTrade_def riskScore_ordinal scored_def)

lemma strategyProject_total:
  "strategyProject g =
     Inr \<lparr>ss_strategyId = fst g, ss_total = fst (snd g), ss_wins = snd (snd g),
          ss_winRate = (if fst (snd g) = 0 then 0 else real (snd (snd g)) / real (fst (snd g)))\<rparr>"
  by (simp add: strategyProject_def divide_op_def Let_def)

lemma filter_scored:
  "filter (\<lambda>d. pj_strategyId d = k) (map scored ts) = map scored (filter (\<lambda>t. strategyId t = k) ts)"
  "filter (\<lambda>d. pj_riskLevel d = rl) (map scored ts) = map scored (filter (\<lambda>t. riskLevel t = rl) ts)"
  "filter pj_win (map scored ts) = map scored (filter win ts)"
  by (simp_all add: filter_map comp_def scored_def)

lemma scored_fields:
  "pj_strategyId (scored t) = strategyId t"
  "pj_riskLevel (scored t) = riskLevel t"
  "pj_outcome (scored t) = outcome t"
  "pj_win (scored t) = win t"
  "pj_riskScore (scored t) = ordinalScore (riskLevel t)"
  by (simp_all add: scored_def)

lemma strategy_groups:
  "set (group_by pj_strategyId (0, 0) strategyStep (map scored ts)) =
     (\<lambda>k. (k, totalOf k ts, winsOf k ts)) ` strategyId ` set ts"
proof -
  have keys: "pj_strategyId ` set (map scored ts) = strategyId ` set ts"
    by (simp add: image_image scored_fields)
  have "g \<in> set (group_by pj_strategyId (0, 0) strategyStep (map scored ts)) \<longleftrightarrow>
          g \<in> (\<lambda>k. (k, totalOf k ts, winsOf k ts)) ` strategyId ` set ts" for g
  proof -
    obtain k a where g: "g = (k, a)" by (cases g)
    have "fold strategyStep (filter (\<lambda>d. pj_strategyId d = k) (map scored ts)) (0, 0) =
            (totalOf k ts, winsOf k ts)"
      by (simp add: fold_strategyStep filter_scored totalOf_def winsOf_def)
    then show ?thesis
      unfolding g group_by_member keys by auto
  qed
  then show ?thesis by blast
qed

lemma byStrategyFacet_total:
  "byStrategyFacet (map scored ts) =
     Inr (sort_key ss_winRate
            (map (\<lambda>g. strategyEntry (fst g) ts)
               (group_by pj_strategyId (0, 0) strategyStep (map scored ts))))"
proof -
  let ?gs = "group_by pj_strategyId (0, 0) strategyStep (map scored ts)"
  have "traverse strategyProject ?gs = Inr (map (\<lambda>g. strategyEntry (fst g) ts) ?gs)"
  proof (rule traverse_total)
    fix g assume "g \<in> set ?gs"
    then obtain k where "g = (k, totalOf k ts, winsOf k ts)"
      unfolding strategy_groups by auto
    then show "strategyProject g = Inr (strategyEntry (fst g) ts)"
      by (simp add: strategyProject_total strategyEntry_def winRateOf_def)
  qed
  then show ?thesis by (simp add: byStrategyFacet_def)
qed

lemma byStrategy_set:
  "byStrategyFacet (map scored ts) = Inr bs \<Longrightarrow>
     set bs = (\<lambda>k. strategyEntry k ts) ` strategyId ` set ts"
proof -
  assume "byStrategyFacet (map scored ts) = Inr bs"
  then have bs: "bs = sort_key ss_winRate
            (map (\<lambda>g. strategyEntry (fst g) ts)
               (group_by pj_strategyId (0, 0) strategyStep (map scored ts)))"
    by (simp add: byStrategyFacet_total)
  have "set bs = (\<lambda>g. strategyEntry (fst g) ts) `
                        set (group_by pj_strategyId (0, 0) strategyStep (map scored ts))"
    unfolding bs by simp
  also have "\<dots> = (\<lambda>k. strategyEntry k ts) ` strategyId ` set ts"
    unfolding strategy_groups by (simp add: image_image)
  finally show ?thesis .
qed

lemma risk_groups:
  "set (group_by pj_riskLevel (0, 0) riskStep (map scored ts)) =
     (\<lambda>rl. (rl, sum_list (outcomesOf rl ts), length (outcomesOf rl ts))) ` riskLevel ` set ts"
proof -
  have keys: "pj_riskLevel ` set (map scored ts) = riskLevel ` set ts"
    by (simp add: image_image scored_fields)
  have outs: "map pj_outcome (map scored xs) = map outcome xs" for xs
    by (simp add: scored_fields)
  have "g \<in> set (group_by pj_riskLevel (0, 0) riskStep (map scored ts)) \<longleftrightarrow>
          g \<in> (\<lambda>rl. (rl, sum_list (outcomesOf rl ts), length (outcomesOf rl ts))) `
                 riskLevel ` set ts" for g
  proof -
    obtain k a where g: "g = (k, a)" by (cases g)
    have "fold riskStep (filter (\<lambda>d. pj_riskLevel d = k) (map scored ts)) (0, 0) =
            (sum_list (outcomesOf k ts), length (outcomesOf k ts))"
      unfolding fold_riskStep filter_scored outs by (simp add: outcomesOf_def)
    then show ?thesis
      unfolding g group_by_member keys by auto
  qed
  then show ?thesis by blast
qed

lemma byRisk_set:
  "set (byRiskFacet (map scored ts)) = (\<lambda>rl. riskEntry rl ts) ` riskLevel ` set ts"
proof -
  have entry: "riskProject (rl, sum_list (outcomesOf rl ts), length (outcomesOf rl ts)) = riskEntry rl ts"
    if "rl \<in> riskLevel ` set ts" for rl
  proof -
    from that have "outcomesOf rl ts \<noteq> []"
      by (auto simp: outcomesOf_def filter_empty_conv)
    then show ?thesis
      by (simp add: riskProject_def riskEntry_def avg_op_def mean_def)
  qed
  have "set (byRiskFacet (map scored ts)) =
          riskProject ` (\<lambda>rl. (rl, sum_list (outcomesOf rl ts), length (outcomesOf rl ts))) `
            riskLevel ` set ts"
    by (simp add: byRiskFacet_def risk_groups)
  also have "\<dots> = (\<lambda>rl. riskEntry rl ts) ` riskLevel ` set ts"
    unfolding image_image [of riskProject] by (rule image_cong) (simp_all add: entry)
  finally show ?thesis .
qed

lemma analyse_total:
  "\<exists>bs. byStrategyFacet (map scored ts) = Inr bs \<and>
     analyse ts = Inr \<lparr>byStrategy = bs, byRisk = byRiskFacet (map scored ts),
                       perTrade = perTradeFacet (map scored ts)\<rparr>"
  by (simp add: analyse_def projectStage_total facetStage_def byStrategyFacet_total)


lemma distinct_map_sort_key:
  "distinct (map f (sort_key k xs)) = distinct (map f xs)"
  by (simp add: distinct_map)

lemma byStrategy_distinct:
  "byStrategyFacet (map scored ts) = Inr bs \<Longrightarrow> distinct (map ss_strategyId bs)"
proof -
  assume "byStrategyFacet (map scored ts) = Inr bs"
  then have bs: "bs = sort_key ss_winRate
            (map (\<lambda>g. strategyEntry (fst g) ts)
               (group_by pj_strategyId (0, 0) strategyStep (map scored ts)))"
    by (simp add: byStrategyFacet_total)
  have "map ss_strategyId (map (\<lambda>g. strategyEntry (fst g) ts) gs) = map fst gs" for gs :: "(string \<times> nat \<times> nat) list"
    by (simp add: strategyEntry_def comp_def)
  then show ?thesis
    unfolding bs distinct_map_sort_key by (simp only: distinct_group_by)
qed

lemma byRisk_distinct: "distinct (map rs_riskLevel (byRiskFacet (map scored ts)))"
proof -
  have "map rs_riskLevel (map riskProject gs) = map fst gs" for gs
    by (simp add: riskProject_def comp_def)
  then show ?thesis
    unfolding byRiskFacet_def distinct_map_sort_key by (simp only: distinct_group_by)
qed

lemma byRisk_sorted: "sorted (map rs_riskLevel (byRiskFacet (map scored ts)))"
  by (simp add: byRiskFacet_def)

lemma perTrade_scored:
  "perTradeFacet (map scored ts) =
     map (\<lambda>t. \<lparr>pt_riskScore = ordinalScore (riskLevel t), pt_outcome = outcome t\<rparr>) ts"
  by (simp add: perTradeFacet_def scored_fields)

section \<open>Counts add up\<close>

lemma sum_list_insort_key:
  "sum_list (map f (insort_key k x xs)) = f x + sum_list (map f xs)" for f :: "'a \<Rightarrow> nat"
  by (induction xs) simp_all

lemma sum_list_sort_key:
  "sum_list (map f (sort_key k xs)) = sum_list (map f xs)" for f :: "'a \<Rightarrow> nat"
  by (induction xs) (simp_all add: sum_list_insort_key)

lemma sum_list_upsert:
  fixes c :: "'a \<Rightarrow> nat"
  assumes "\<And>a. c (f a) = c a + 1" "c i = 0"
  shows "sum_list (map (\<lambda>g. c (snd g)) (upsert k f i gs)) = sum_list (map (\<lambda>g. c (snd g)) gs) + 1"
  by (induction gs) (auto simp: assms)

lemma sum_list_fold_upsert:
  fixes c :: "'a \<Rightarrow> nat"
  assumes "\<And>d a. c (step d a) = c a + 1" "c init = 0"
  shows "sum_list (map (\<lambda>g. c (snd g)) (fold (\<lambda>d gs. upsert (key d) (step d) init gs) docs gs0))
           = sum_list (map (\<lambda>g. c (snd g)) gs0) + length docs"
  by (induction docs arbitrary: gs0) (simp_all add: sum_list_upsert assms)

lemma sum_list_group_by:
  fixes c :: "'a \<Rightarrow> nat"
  assumes "\<And>d a. c (step d a) = c a + 1" "c init = 0"
  shows "sum_list (map (\<lambda>g. c (snd g)) (group_by key init step docs)) = length docs"
  using sum_list_fold_upsert [of c step init key docs "[]", OF assms] by (simp add: group_by_def)

lemma byRisk_counts: "sum_list (map rs_count (byRiskFacet (map scored ts))) = length ts"
proof -
  have "sum_list (map (\<lambda>g. snd (snd g)) (group_by pj_riskLevel (0, 0) riskStep (map scored ts)))
          = length (map scored ts)"
    by (rule sum_list_group_by) (simp_all add: riskStep_def)
  then show ?thesis
    by (simp add: byRiskFacet_def sum_list_sort_key comp_def riskProject_def)
qed

lemma byStrategy_totals:
  assumes "byStrategyFacet (map scored ts) = Inr bs"
  shows "sum_list (map ss_total bs) = length ts"
proof -
  let ?gs = "group_by pj_strategyId (0, 0) strategyStep (map scored ts)"
  from assms have bs: "bs = sort_key ss_winRate (map (\<lambda>g. strategyEntry (fst g) ts) ?gs)"
    by (simp add: byStrategyFacet_total)
  have same: "map (\<lambda>g. totalOf (fst g) ts) ?gs = map (\<lambda>g. fst (snd g)) ?gs"
    by (rule map_cong [OF refl]) (auto simp: strategy_groups)
  have "sum_list (map ss_total bs) = sum_list (map (\<lambda>g. totalOf (fst g) ts) ?gs)"
    by (simp add: bs sum_list_sort_key comp_def strategyEntry_def)
  also have "\<dots> = sum_list (map (\<lambda>g. fst (snd g)) ?gs)"
    by (simp only: same)
  also have "\<dots> = length (map scored ts)"
    by (rule sum_list_group_by) (simp_all add: strategyStep_def)
  finally show ?thesis by simp
qed

section \<open>The coefficient is bounded\<close>

lemma pearson_core:
  fixes f g :: "'a \<Rightarrow> real" and xs :: "'a list"
  defines "n \<equiv> real (length xs)"
  defines "N \<equiv> n * sum_list (map (\<lambda>x. f x * g x) xs) - sum_list (map f xs) * sum_list (map g xs)"
  defines "L \<equiv> n * sum_list (map (\<lambda>x. f x * f x) xs) - sum_list (map f xs) * sum_list (map f xs)"
  defines "R \<equiv> n * sum_list (map (\<lambda>x. g x * g x) xs) - sum_list (map g xs) * sum_list (map g xs)"
  shows "0 \<le> L" and "0 \<le> R" and "N * N \<le> L * R"
proof -
  let ?a = "\<lambda>x. n * f x - sum_list (map f xs)"
  let ?b = "\<lambda>x. n * g x - sum_list (map g xs)"
  have ab: "sum_list (map (\<lambda>x. ?a x * ?b x) xs) = n * N"
    unfolding centred_products N_def n_def by (simp add: algebra_simps)
  have aa: "sum_list (map (\<lambda>x. ?a x * ?a x) xs) = n * L"
    unfolding centred_products L_def n_def by (simp add: algebra_simps)
  have bb: "sum_list (map (\<lambda>x. ?b x * ?b x) xs) = n * R"
    unfolding centred_products R_def n_def by (simp add: algebra_simps)
  have n: "0 < n" if "xs \<noteq> []"
    using that by (simp add: n_def)
  show "0 \<le> L"
  proof (cases "xs = []")
    case True
    then show ?thesis by (simp add: L_def n_def)
  next
    case False
    have "0 \<le> n * L"
      using sum_list_squares_nonneg [of ?a xs] by (simp only: aa)
    with n [OF False] show ?thesis by (simp add: zero_le_mult_iff)
  qed
  show "0 \<le> R"
  proof (cases "xs = []")
    case True
    then show ?thesis by (simp add: R_def n_def)
  next
    case False
    have "0 \<le> n * R"
      using sum_list_squares_nonneg [of ?b xs] by (simp only: bb)
    with n [OF False] show ?thesis by (simp add: zero_le_mult_iff)
  qed
  show "N * N \<le> L * R"
  proof (cases "xs = []")
    case True
    then show ?thesis by (simp add: L_def R_def N_def n_def)
  next
    case False
    have "(n * N) * (n * N) \<le> (n * L) * (n * R)"
      using cauchy_schwarz_list [of ?a ?b xs] by (simp only: ab aa bb)
    then have "(n * n) * (N * N) \<le> (n * n) * (L * R)"
      by (simp add: algebra_simps)
    moreover have "0 < n * n" using n [OF False] by simp
    ultimately show ?thesis
      by (simp only: mult_le_cancel_left_pos)
  qed
qed

lemma ratio_bounded:
  fixes N D :: real
  assumes "N * N \<le> D" "sqrt D \<noteq> 0"
  shows "- 1 \<le> N / sqrt D" and "N / sqrt D \<le> 1"
proof -
  have "0 \<le> D" using assms(1) by (meson order_trans zero_le_square)
  with assms(2) have pos: "0 < sqrt D" by (simp add: order_less_le)
  have "\<bar>N\<bar> = sqrt (N * N)" by simp
  also have "\<dots> \<le> sqrt D" using assms(1) by (rule real_sqrt_le_mono)
  finally have "\<bar>N\<bar> \<le> sqrt D" .
  then have "\<bar>N / sqrt D\<bar> \<le> 1" using pos by simp
  then show "- 1 \<le> N / sqrt D" and "N / sqrt D \<le> 1" by (simp_all add: abs_le_iff; linarith)+
qed

text \<open>The correlation on any list of per-trade entries.\<close>

lemma correlation_closed_form:
  fixes pts :: "per_trade list"
  defines "n \<equiv> real (length pts)"
  defines "N \<equiv> n * sum_list (map (\<lambda>t. pt_riskScore t * pt_outcome t) pts)
                 - sum_list (map pt_riskScore pts) * sum_list (map pt_outcome pts)"
  defines "L \<equiv> n * sum_list (map (\<lambda>t. pt_riskScore t * pt_riskScore t) pts)
                 - sum_list (map pt_riskScore pts) * sum_list (map pt_riskScore pts)"
  defines "R \<equiv> n * sum_list (map (\<lambda>t. pt_outcome t * pt_outcome t) pts)
                 - sum_list (map pt_outcome pts) * sum_list (map pt_outcome pts)"
  shows "correlation pts =
           (if length pts < 2 \<or> sqrt (L * R) = 0 then None else Some (Num (N / sqrt (L * R))))"
proof -
  have "0 \<le> L" "0 \<le> R"
    unfolding L_def R_def n_def by (rule pearson_core)+
  then have "\<not> L * R < 0" by (simp add: not_less)
  then show ?thesis
    by (simp add: correlation_def Let_def fold_addTrade zeroSums_def numerator_def
        denomLeft_def denomRight_def js_sqrt_def N_def L_def R_def n_def not_less)
qed

section \<open>Strategy entries and the report\<close>

lemma strategyEntry_fields:
  "ss_strategyId (strategyEntry k ts) = k"
  "ss_total (strategyEntry k ts) = totalOf k ts"
  "ss_wins (strategyEntry k ts) = winsOf k ts"
  "ss_winRate (strategyEntry k ts) = winRateOf k ts"
  by (simp_all add: strategyEntry_def)

lemma totalOf_pos_iff: "0 < totalOf k ts \<longleftrightarrow> k \<in> strategyId ` set ts"
  by (auto simp: totalOf_def filter_empty_conv)

lemma winsOf_le_totalOf: "winsOf k ts \<le> totalOf k ts"
  unfolding winsOf_def totalOf_def by (rule length_filter_le)

lemma winRateOf_range: "0 \<le> winRateOf k ts \<and> winRateOf k ts \<le> 1"
  using winsOf_le_totalOf [of k ts] by (simp add: winRateOf_def)

lemma underperforming_member:
  assumes "byStrategyFacet (map scored ts) = Inr bs"
  shows "(k, r) \<in> set (underperforming bs) \<longleftrightarrow>
           0 < totalOf k ts \<and> r = winRateOf k ts \<and> r < 1 / 2"
proof -
  have "(k, r) \<in> set (underperforming bs) \<longleftrightarrow>
          (\<exists>s \<in> set bs. ss_strategyId s = k \<and> ss_winRate s = r \<and> 0 < ss_total s \<and> ss_winRate s < 0.5)"
    by (auto simp: underperforming_def)
  also have "\<dots> \<longleftrightarrow> (\<exists>k' \<in> strategyId ` set ts. k' = k \<and> winRateOf k' ts = r \<and>
                       0 < totalOf k' ts \<and> winRateOf k' ts < 0.5)"
    unfolding byStrategy_set [OF assms] by (simp add: strategyEntry_fields)
  also have "\<dots> \<longleftrightarrow> 0 < totalOf k ts \<and> r = winRateOf k ts \<and> r < 1 / 2"
    using totalOf_pos_iff [of k ts] by auto
  finally show ?thesis .
qed

lemma analyse_result:
  obtains result where "analyse ts = Inr result"
    and "byStrategyFacet (map scored ts) = Inr (byStrategy result)"
    and "byRisk result = byRiskFacet (map scored ts)"
    and "perTrade result = perTradeFacet (map scored ts)"
proof -
  obtain bs where "byStrategyFacet (map scored ts) = Inr bs"
    and "analyse ts = Inr \<lparr>byStrategy = bs, byRisk = byRiskFacet (map scored ts),
                       perTrade = perTradeFacet (map scored ts)\<rparr>"
    using analyse_total by blast
  then show ?thesis
    by (intro that [of "\<lparr>byStrategy = bs, byRisk = byRiskFacet (map scored ts),
                       perTrade = perTradeFacet (map scored ts)\<rparr>"]) simp_all
qed

lemma buildReport_fields:
  "rp_userId (buildReport u replyTime result) = u"
  "windowDays (buildReport u replyTime result) = days"
  "underperformingStrategies (buildReport u replyTime result) = underperforming (byStrategy result)"
  "riskAverages (buildReport u replyTime result) = byRisk result"
  "riskOutcomeCorrelation (buildReport u replyTime result) = correlation (perTrade result)"
  "suggestions (buildReport u replyTime result) =
     suggest (underperforming (byStrategy result)) (byRisk result) (correlation (perTrade result))"
  "totalTradesAnalyzed (buildReport u replyTime result) = length (perTrade result)"
  "generatedAt (buildReport u replyTime result) = replyTime"
  by (simp_all add: buildReport_def Let_def)

section \<open>Risk entries and the suggestions\<close>

lemma riskEntry_fields:
  "rs_riskLevel (riskEntry rl ts) = rl"
  "rs_count (riskEntry rl ts) = length (outcomesOf rl ts)"
  "rs_avgOutcome (riskEntry rl ts) = Some (mean (outcomesOf rl ts))"
  by (simp_all add: riskEntry_def)

lemma outcomesOf_nonempty: "rl \<in> riskLevel ` set ts \<Longrightarrow> 0 < length (outcomesOf rl ts)"
  by (auto simp: outcomesOf_def filter_empty_conv)








section \<open>The correlation of the window\<close>

lemma pearson_bounded:
  assumes "pearsonDenominator ps \<noteq> 0"
  shows "- 1 \<le> pearson ps" and "pearson ps \<le> 1"
proof -
  have "pearsonNumerator ps * pearsonNumerator ps \<le>
          (real (length ps) * (\<Sum>p\<leftarrow>ps. fst p * fst p) - (\<Sum>p\<leftarrow>ps. fst p) * (\<Sum>p\<leftarrow>ps. fst p)) *
          (real (length ps) * (\<Sum>p\<leftarrow>ps. snd p * snd p) - (\<Sum>p\<leftarrow>ps. snd p) * (\<Sum>p\<leftarrow>ps. snd p))"
    unfolding pearsonNumerator_def by (rule pearson_core)
  then show "- 1 \<le> pearson ps" and "pearson ps \<le> 1"
    using assms unfolding pearson_def pearsonDenominator_def
    by (rule ratio_bounded)+
qed

lemma correlation_window:
  "correlation (perTradeFacet (map scored ts)) =
     (if length ts < 2 \<or> pearsonDenominator (points ts) = 0 then None
      else Some (Num (pearson (points ts))))"
  unfolding correlation_closed_form
  by (simp add: perTrade_scored points_def pearson_def pearsonNumerator_def
      pearsonDenominator_def comp_def)

text \<open>The denominator vanishes exactly when the scores or the outcomes do not vary.\<close>

lemma sum_list_squares_zero_iff:
  fixes f :: "'a \<Rightarrow> real"
  shows "sum_list (map (\<lambda>x. f x * f x) xs) = 0 \<longleftrightarrow> (\<forall>x \<in> set xs. f x = 0)"
proof (induction xs)
  case Nil
  then show ?case by simp
next
  case (Cons x xs)
  have "f x * f x + sum_list (map (\<lambda>x. f x * f x) xs) = 0 \<longleftrightarrow>
          f x * f x = 0 \<and> sum_list (map (\<lambda>x. f x * f x) xs) = 0"
    using sum_list_squares_nonneg [of f xs] by (intro add_nonneg_eq_0_iff) simp_all
  then show ?case using Cons.IH by simp
qed

lemma sum_list_constant:
  fixes f :: "'a \<Rightarrow> real"
  assumes "\<forall>x \<in> set xs. f x = c"
  shows "sum_list (map f xs) = real (length xs) * c"
  using assms by (induction xs) (simp_all add: algebra_simps)

lemma no_variance_iff:
  fixes f :: "'a \<Rightarrow> real"
  shows "real (length xs) * sum_list (map (\<lambda>x. f x * f x) xs)
           - sum_list (map f xs) * sum_list (map f xs) = 0 \<longleftrightarrow>
         (\<forall>x \<in> set xs. \<forall>y \<in> set xs. f x = f y)"
    (is "?L = 0 \<longleftrightarrow> ?same")
proof (cases "xs = []")
  case True
  then show ?thesis by simp
next
  case False
  let ?n = "real (length xs)"
  let ?S = "sum_list (map f xs)"
  from False have n: "0 < ?n" by simp
  have centred: "sum_list (map (\<lambda>x. (?n * f x - ?S) * (?n * f x - ?S)) xs) = ?n * ?L"
    unfolding centred_products by (simp add: algebra_simps)
  show ?thesis
  proof
    assume "?L = 0"
    then have "sum_list (map (\<lambda>x. (?n * f x - ?S) * (?n * f x - ?S)) xs) = 0"
      by (simp only: centred)
    then have "\<forall>x \<in> set xs. ?n * f x - ?S = 0"
      by (simp only: sum_list_squares_zero_iff)
    then have "\<forall>x \<in> set xs. f x = ?S / ?n"
      using n by (simp add: field_simps)
    then show ?same by simp
  next
    assume same: ?same
    from False obtain z where z: "z \<in> set xs" by (cases xs) auto
    with same have all: "\<forall>x \<in> set xs. f x = f z" by blast
    then have sq: "\<forall>x \<in> set xs. f x * f x = f z * f z" by simp
    have "?S = ?n * f z"
      using all by (rule sum_list_constant)
    moreover have "sum_list (map (\<lambda>x. f x * f x) xs) = ?n * (f z * f z)"
      using sq by (rule sum_list_constant)
    ultimately show "?L = 0" by (simp add: algebra_simps)
  qed
qed

lemma pearsonDenominator_zero_iff:
  "pearsonDenominator ps = 0 \<longleftrightarrow>
     (\<forall>p \<in> set ps. \<forall>q \<in> set ps. fst p = fst q) \<or> (\<forall>p \<in> set ps. \<forall>q \<in> set ps. snd p = snd q)"
  unfolding pearsonDenominator_def real_sqrt_eq_zero_cancel_iff mult_eq_0_iff no_variance_iff ..

lemma points_zero_variance:
  "pearsonDenominator (points ts) = 0 \<longleftrightarrow>
     (\<forall>t \<in> set ts. \<forall>t' \<in> set ts. ordinalScore (riskLevel t) = ordinalScore (riskLevel t')) \<or>
     (\<forall>t \<in> set ts. \<forall>t' \<in> set ts. outcome t = outcome t')"
  unfolding pearsonDenominator_zero_iff by (simp add: points_def)

section \<open>The handler on a store that answers\<close>

lemma optimize_valid:
  assumes "isValid u"
  obtains result where "analyse (matchStage u (windowStart now) store) = Inr result"
    and "optimize isValid (Some store) now replyTime u =
           (Response 200 (ReportBody (buildReport u replyTime result)),
            [AggregateQuery u (windowStart now)])"
proof -
  obtain result where r: "analyse (matchStage u (windowStart now) store) = Inr result"
    by (rule analyse_result)
  then have "optimize isValid (Some store) now replyTime u =
           (Response 200 (ReportBody (buildReport u replyTime result)),
            [AggregateQuery u (windowStart now)])"
    using assms by (simp add: optimize_def aggregate_def Let_def)
  with r show ?thesis by (rule that)
qed

lemma strategyProject_never_fails: "\<exists>stats. traverse strategyProject gs = Inr stats"
  using traverse_total [of gs strategyProject, OF strategyProject_total] by blast

section \<open>Rounding to a double\<close>

lemma binade_from_eq:
  "e < int k - 1022 \<Longrightarrow> - 1022 \<le> e \<Longrightarrow> 2 powi e \<le> a \<Longrightarrow> a < 2 powi (e + 1) \<Longrightarrow>
     binade_from k a = e"
proof (induction k)
  case 0
  then show ?case by simp
next
  case (Suc k)
  show ?case
  proof (cases "e = int k - 1022")
    case True
    with Suc.prems show ?thesis by simp
  next
    case False
    with Suc.prems have below: "e < int k - 1022" by simp
    then have "(2::real) powi (e + 1) \<le> 2 powi (int k - 1022)"
      by (intro power_int_increasing) simp_all
    with Suc.prems have "\<not> 2 powi (int k - 1022) \<le> a" by simp
    then show ?thesis
      using Suc.IH [OF below] Suc.prems by simp
  qed
qed

lemma binade_eq:
  "2 powi e \<le> \<bar>x\<bar> \<Longrightarrow> \<bar>x\<bar> < 2 powi (e + 1) \<Longrightarrow> - 1022 \<le> e \<Longrightarrow> e \<le> 1023 \<Longrightarrow> binade x = e"
  unfolding binade_def by (rule binade_from_eq) simp_all

lemma round64_at:
  assumes "2 powi e \<le> \<bar>x\<bar>" "\<bar>x\<bar> < 2 powi (e + 1)" "- 1022 \<le> e" "e \<le> 1023"
  shows "round64 x =
     (let q = 2 powi (e - 52);
          y = of_int (nearest_even (x / q)) * q
      in if 2 ^ 1024 \<le> y then PosInf else if y \<le> - (2 ^ 1024) then NegInf else Num y)"
  unfolding round64_def binade_eq [OF assms] ..

lemma round64_zero: "round64 0 = Num 0"
  by (simp add: round64_def nearest_even_def)

lemma roundings:
  "round64 1 = Num 1"
  "round64 3 = Num 3"
  "round64 4 = Num 4"
  "round64 5 = Num 5"
  "round64 9 = Num 9"
  "round64 10 = Num 10"
  "round64 100000000 = Num 100000000"
  "round64 200000001 = Num 200000001"
  "round64 200000002 = Num 200000002"
  "round64 300000002 = Num 300000002"
  "round64 600000004 = Num 600000004"
  "round64 600000003 = Num 600000003"
  "round64 10000000000000000 = Num 10000000000000000"
  "round64 10000000200000001 = Num 10000000200000000"
  "round64 20000000200000000 = Num 20000000200000000"
  "round64 40000000400000000 = Num 40000000400000000"
  "round64 40000000400000001 = Num 40000000400000000"
proof -
  show "round64 1 = Num 1"
    by (simp add: round64_at [where e = 0] nearest_even_def)
  show "round64 3 = Num 3"
    by (simp add: round64_at [where e = 1] nearest_even_def)
  show "round64 4 = Num 4"
    by (simp add: round64_at [where e = 2] nearest_even_def)
  show "round64 5 = Num 5"
    by (simp add: round64_at [where e = 2] nearest_even_def)
  show "round64 9 = Num 9"
    by (simp add: round64_at [where e = 3] nearest_even_def)
  show "round64 10 = Num 10"
    by (simp add: round64_at [where e = 3] nearest_even_def)
  show "round64 100000000 = Num 100000000"
    by (simp add: round64_at [where e = 26] nearest_even_def)
  show "round64 200000001 = Num 200000001"
    by (simp add: round64_at [where e = 27] nearest_even_def)
  show "round64 200000002 = Num 200000002"
    by (simp add: round64_at [where e = 27] nearest_even_def)
  show "round64 300000002 = Num 300000002"
    by (simp add: round64_at [where e = 28] nearest_even_def)
  show "round64 600000004 = Num 600000004"
    by (simp add: round64_at [where e = 29] nearest_even_def)
  show "round64 600000003 = Num 600000003"
    by (simp add: round64_at [where e = 29] nearest_even_def)
  show "round64 10000000000000000 = Num 10000000000000000"
    by (simp add: round64_at [where e = 53] nearest_even_def)
  show "round64 10000000200000001 = Num 10000000200000000"
    by (simp add: round64_at [where e = 53] nearest_even_def)
  show "round64 20000000200000000 = Num 20000000200000000"
    by (simp add: round64_at [where e = 54] nearest_even_def)
  show "round64 40000000400000000 = Num 40000000400000000"
    by (simp add: round64_at [where e = 55] nearest_even_def)
  show "round64 40000000400000001 = Num 40000000400000000"
    by (simp add: round64_at [where e = 55] nearest_even_def)
qed

lemma cancelled_denominator:
  "denominatorIn round64
     [\<lparr>pt_riskScore = 1, pt_outcome = 100000000\<rparr>, \<lparr>pt_riskScore = 2, pt_outcome = 100000001\<rparr>]
   = Num 0"
  by (simp add: denominatorIn_def denomLeftIn_def denomRightIn_def sumsIn_def addTradeIn_def
      zeroSumsIn_def sub_op_def Let_def roundings round64_zero)

lemma cancelled_correlation:
  "correlationIn round64
     [\<lparr>pt_riskScore = 1, pt_outcome = 100000000\<rparr>, \<lparr>pt_riskScore = 2, pt_outcome = 100000001\<rparr>]
   = Inr None"
  by (simp add: correlationIn_def cancelled_denominator)

section \<open>The rounded loop\<close>

lemma correlationIn_guarded:
  "correlationIn rnd pts =
     Inr (if length pts < 2 \<or> denominatorIn rnd pts = Num 0 then None
          else Some (div_op rnd (numeratorIn rnd pts) (denominatorIn rnd pts)))"
  by (simp add: correlationIn_def divide_checked_def not_less)

lemma sumsIn_exact:
  "fold (addTradeIn Num) pts
     \<lparr>rsumX = Num (sumX s), rsumY = Num (sumY s), rsumXY = Num (sumXY s),
      rsumX2 = Num (sumX2 s), rsumY2 = Num (sumY2 s)\<rparr> =
   (let s' = fold addTrade pts s in
    \<lparr>rsumX = Num (sumX s'), rsumY = Num (sumY s'), rsumXY = Num (sumXY s'),
     rsumX2 = Num (sumX2 s'), rsumY2 = Num (sumY2 s')\<rparr>)"
proof (induction pts arbitrary: s)
  case Nil
  then show ?case by simp
next
  case (Cons t pts)
  show ?case
    using Cons.IH [of "addTrade t s"] by (simp add: addTradeIn_def addTrade_def Let_def)
qed

lemma sumsIn_Num:
  "sumsIn Num pts =
     (let s = fold addTrade pts zeroSums in
      \<lparr>rsumX = Num (sumX s), rsumY = Num (sumY s), rsumXY = Num (sumXY s),
       rsumX2 = Num (sumX2 s), rsumY2 = Num (sumY2 s)\<rparr>)"
  using sumsIn_exact [of pts zeroSums] by (simp add: sumsIn_def zeroSumsIn_def zeroSums_def)

lemma exact_parts:
  "numeratorIn Num pts = Num (numerator (length pts) (fold addTrade pts zeroSums))"
  "denomLeftIn Num pts = Num (denomLeft (length pts) (fold addTrade pts zeroSums))"
  "denomRightIn Num pts = Num (denomRight (length pts) (fold addTrade pts zeroSums))"
  by (simp_all add: numeratorIn_def denomLeftIn_def denomRightIn_def sumsIn_Num Let_def
      sub_op_def numerator_def denomLeft_def denomRight_def)

lemma denominatorIn_exact:
  "denominatorIn Num pts =
     js_sqrt (denomLeft (length pts) (fold addTrade pts zeroSums) *
              denomRight (length pts) (fold addTrade pts zeroSums))"
  by (simp add: denominatorIn_def exact_parts js_sqrt_def)

lemma div_op_exact: "div_op Num (Num a) d = js_div a d"
  by (cases d) simp_all

lemma correlationIn_exact: "correlationIn Num pts = Inr (correlation pts)"
  unfolding correlationIn_guarded
  by (simp add: correlation_def Let_def denominatorIn_exact exact_parts div_op_exact not_less)

section \<open>Runs of the engine\<close>

lemma emission_refl: "emission gs gs"
  by (simp add: emission_def)

lemma sort_result_sort_key: "sort_result f xs (sort_key f xs)"
  by (simp add: sort_result_def)

lemma analyse_is_run:
  assumes "analyse ts = Inr r"
  shows "analyseRun ts r"
proof -
  let ?docs = "map scored ts"
  from assms obtain stats where
    stats: "traverse strategyProject (group_by pj_strategyId (0, 0) strategyStep ?docs) = Inr stats"
    and bs: "byStrategy r = sort_key ss_winRate stats"
    and rs: "byRisk r = byRiskFacet ?docs"
    and pt: "perTrade r = perTradeFacet ?docs"
    by (auto simp: analyse_def projectStage_total facetStage_def byStrategyFacet_def
        split: sum.splits)
  have "byStrategyRun ?docs (byStrategy r)"
    unfolding byStrategyRun_def bs
    using emission_refl stats sort_result_sort_key by blast
  moreover have "byRiskRun ?docs (byRisk r)"
    unfolding byRiskRun_def rs byRiskFacet_def
    using emission_refl sort_result_sort_key by blast
  ultimately have "facetRun ?docs r"
    by (simp add: facetRun_def pt)
  then show ?thesis
    unfolding analyseRun_def using projectStage_total by blast
qed









section \<open>Two trades with equal win rates\<close>







section \<open>Two outcomes near 10 to the 8\<close>

lemma cancelled_points:
  "points
     [\<lparr>userId = ''u'', strategyId = ''a'', tradeDate = 0, riskLevel = Some ''low'',
       outcome = 100000000, win = True\<rparr>,
      \<lparr>userId = ''u'', strategyId = ''a'', tradeDate = 0, riskLevel = Some ''medium'',
       outcome = 100000001, win = True\<rparr>] = [(1, 100000000), (2, 100000001)]"
  by (simp add: points_def ordinalScore_def)

lemma cancelled_pearson:
  "pearsonDenominator [(1, 100000000), (2, 100000001)] = 1"
  "pearson [(1, 100000000), (2, 100000001)] = 1"
  by (simp_all add: pearson_def pearsonDenominator_def pearsonNumerator_def)

lemma cancelled_perTrade:
  "perTradeFacet (map scored
     [\<lparr>userId = ''u'', strategyId = ''a'', tradeDate = 0, riskLevel = Some ''low'',
       outcome = 100000000, win = True\<rparr>,
      \<lparr>userId = ''u'', strategyId = ''a'', tradeDate = 0, riskLevel = Some ''medium'',
       outcome = 100000001, win = True\<rparr>]) =
   [\<lparr>pt_riskScore = 1, pt_outcome = 100000000\<rparr>, \<lparr>pt_riskScore = 2, pt_outcome = 100000001\<rparr>]"
  by (simp add: perTradeFacet_def scored_def ordinalScore_def)

section \<open>Two outcomes that round to a coefficient above 1\<close>

lemma nearest_even_between:
  assumes "of_int k - 1 / 2 < r" "r < of_int k + 1 / 2"
  shows "nearest_even r = k"
proof (cases "r < of_int k")
  case True
  with assms have "\<lfloor>r\<rfloor> = k - 1"
    by (intro floor_unique) simp_all
  with assms show ?thesis
    by (simp add: nearest_even_def)
next
  case False
  with assms have "\<lfloor>r\<rfloor> = k"
    by (intro floor_unique) simp_all
  with assms show ?thesis
    by (simp add: nearest_even_def)
qed

lemma more_roundings:
  "round64 200000003 = Num 200000003"
  "round64 200000006 = Num 200000006"
  "round64 300000006 = Num 300000006"
  "round64 600000012 = Num 600000012"
  "round64 600000009 = Num 600000009"
  "round64 10000000600000009 = Num 10000000600000008"
  "round64 20000000600000008 = Num 20000000600000008"
  "round64 40000001200000016 = Num 40000001200000016"
  "round64 40000001200000009 = Num 40000001200000008"
  "round64 8 = Num 8"
proof -
  show "round64 200000003 = Num 200000003"
    by (simp add: round64_at [where e = 27] nearest_even_def)
  show "round64 200000006 = Num 200000006"
    by (simp add: round64_at [where e = 27] nearest_even_def)
  show "round64 300000006 = Num 300000006"
    by (simp add: round64_at [where e = 28] nearest_even_def)
  show "round64 600000012 = Num 600000012"
    by (simp add: round64_at [where e = 29] nearest_even_def)
  show "round64 600000009 = Num 600000009"
    by (simp add: round64_at [where e = 29] nearest_even_def)
  show "round64 10000000600000009 = Num 10000000600000008"
    by (simp add: round64_at [where e = 53] nearest_even_def)
  show "round64 20000000600000008 = Num 20000000600000008"
    by (simp add: round64_at [where e = 54] nearest_even_def)
  show "round64 40000001200000016 = Num 40000001200000016"
    by (simp add: round64_at [where e = 55] nearest_even_def)
  show "round64 40000001200000009 = Num 40000001200000008"
    by (simp add: round64_at [where e = 55] nearest_even_def)
  show "round64 8 = Num 8"
    by (simp add: round64_at [where e = 3] nearest_even_def)
qed

lemma sqrt_8_bounds:
  "(6369051672525773 - 1 / 2) / 2251799813685248 < sqrt 8"
  "sqrt 8 < 6369051672525773 / 2251799813685248"
proof -
  show "(6369051672525773 - 1 / 2) / 2251799813685248 < sqrt 8"
    by (rule real_less_rsqrt) (simp add: power2_eq_square)
  show "sqrt 8 < 6369051672525773 / 2251799813685248"
    by (rule real_less_lsqrt) (simp_all add: power2_eq_square)
qed

lemma round64_sqrt_8: "round64 (sqrt 8) = Num (6369051672525773 / 2251799813685248)"
proof -
  have pos: "\<bar>sqrt 8\<bar> = sqrt 8" by simp
  have lo: "2 powi 1 \<le> \<bar>sqrt 8\<bar>"
    unfolding pos using sqrt_8_bounds(1) by simp
  have hi: "\<bar>sqrt 8\<bar> < 2 powi (1 + 1)"
    unfolding pos using sqrt_8_bounds(2) by simp
  have "nearest_even (sqrt 8 / 2 powi (1 - 52)) = 6369051672525773"
    using sqrt_8_bounds by (intro nearest_even_between) (simp_all add: field_simps)
  then show ?thesis
    unfolding round64_at [OF lo hi, simplified] by simp
qed

lemma round64_quotient:
  "round64 (6755399441055744 / 6369051672525773) =
     Num (4776788754394329 / 4503599627370496)"
  by (simp add: round64_at [where e = 0] nearest_even_def)

lemma exceeded_correlation:
  "correlationIn round64
     [\<lparr>pt_riskScore = 1, pt_outcome = 100000000\<rparr>, \<lparr>pt_riskScore = 2, pt_outcome = 100000003\<rparr>]
   = Inr (Some (Num (4776788754394329 / 4503599627370496)))"
proof -
  let ?pts = "[\<lparr>pt_riskScore = 1, pt_outcome = 100000000\<rparr>, \<lparr>pt_riskScore = 2, pt_outcome = 100000003\<rparr>]"
  have n: "numeratorIn round64 ?pts = Num 3"
    by (simp add: numeratorIn_def sumsIn_def addTradeIn_def zeroSumsIn_def sub_op_def Let_def
        roundings more_roundings round64_zero)
  have l: "denomLeftIn round64 ?pts = Num 1"
    by (simp add: denomLeftIn_def sumsIn_def addTradeIn_def zeroSumsIn_def sub_op_def Let_def
        roundings more_roundings round64_zero)
  have r: "denomRightIn round64 ?pts = Num 8"
    by (simp add: denomRightIn_def sumsIn_def addTradeIn_def zeroSumsIn_def sub_op_def Let_def
        roundings more_roundings round64_zero)
  have d: "denominatorIn round64 ?pts = Num (6369051672525773 / 2251799813685248)"
    by (simp add: denominatorIn_def l r more_roundings round64_sqrt_8)
  show ?thesis
    unfolding correlationIn_guarded n d by (simp add: round64_quotient)
qed

lemma exceeded_pearson: "pearson [(1, 100000000), (2, 100000003)] = 1"
proof -
  have "sqrt 9 = 3"
    by (rule real_sqrt_unique) simp_all
  then show ?thesis
    by (simp add: pearson_def pearsonDenominator_def pearsonNumerator_def)
qed

section \<open>The claims\<close>

text \<open>
  C4. The risk score is defined for every risk level, present or absent: 1 for low, 2 for
  medium, 3 for high and 2 for anything else. The expression never raises, so the
  projection stage yields a document for every trade, with that score.
\<close>

theorem riskScore_total:
  "riskScore (Some ''low'') = Inr 1 \<and> riskScore (Some ''medium'') = Inr 2 \<and>
   riskScore (Some ''high'') = Inr 3 \<and>
   (rl \<notin> {Some ''low'', Some ''medium'', Some ''high''} \<longrightarrow> riskScore rl = Inr 2) \<and>
   (\<exists>s. riskScore rl = Inr s \<and> s \<in> {1, 2, 3}) \<and>
   (\<exists>docs. projectStage ts = Inr docs \<and>
      map pj_riskScore docs = map (\<lambda>t. ordinalScore (riskLevel t)) ts)"
proof -
  have "map pj_riskScore (map scored ts) = map (\<lambda>t. ordinalScore (riskLevel t)) ts"
    by (simp add: scored_fields)
  then have "\<exists>docs. projectStage ts = Inr docs \<and>
      map pj_riskScore docs = map (\<lambda>t. ordinalScore (riskLevel t)) ts"
    unfolding projectStage_total by blast
  moreover have "riskScore (Some ''low'') = Inr 1" "riskScore (Some ''medium'') = Inr 2"
    "riskScore (Some ''high'') = Inr 3"
    by (simp_all add: riskScore_def)
  moreover have "rl \<notin> {Some ''low'', Some ''medium'', Some ''high''} \<longrightarrow> riskScore rl = Inr 2"
    by (simp add: riskScore_def)
  moreover have "\<exists>s. riskScore rl = Inr s \<and> s \<in> {1, 2, 3}"
    by (simp add: riskScore_ordinal ordinalScore_def)
  ultimately show ?thesis by blast
qed

theorem riskScore_total_witness:
  "None \<notin> {Some ''low'', Some ''medium'', Some ''high''} \<and> riskScore None = Inr 2 \<and>
   (\<exists>docs. projectStage
        [\<lparr>userId = ''u'', strategyId = ''s'', tradeDate = 0, riskLevel = Some ''extreme'',
          outcome = 5, win = True\<rparr>,
         \<lparr>userId = ''u'', strategyId = ''s'', tradeDate = 0, riskLevel = Some ''high'',
          outcome = 5, win = True\<rparr>] = Inr docs \<and>
      map pj_riskScore docs = [2, 3])"
  using riskScore_total [of None
        "[\<lparr>userId = ''u'', strategyId = ''s'', tradeDate = 0, riskLevel = Some ''extreme'',
          outcome = 5, win = True\<rparr>,
         \<lparr>userId = ''u'', strategyId = ''s'', tradeDate = 0, riskLevel = Some ''high'',
          outcome = 5, win = True\<rparr>]"]
  by (simp add: ordinalScore_def)

text \<open>
  C7. When the user id is not a valid identifier, the reply is status 400 with the body
  \<^verbatim>\<open>{ error: "Invalid userId" }\<close>, whatever the store holds, and no query is sent
  to the store: the handler has no effect.
\<close>

theorem invalid_userId_rejected:
  "\<not> isValid u \<Longrightarrow>
     optimize isValid store now replyTime u = (Response 400 (ErrorBody ''Invalid userId''), [])"
  by (simp add: optimize_def)

theorem invalid_userId_rejected_witness:
  "\<not> (\<lambda>s. length s = 24) ''not-an-id'' \<and>
   optimize (\<lambda>s. length s = 24)
     (Some [\<lparr>userId = ''not-an-id'', strategyId = ''s'', tradeDate = 0, riskLevel = Some ''low'',
             outcome = 5, win = True\<rparr>]) 0 1 ''not-an-id''
     = (Response 400 (ErrorBody ''Invalid userId''), [])"
  using invalid_userId_rejected [of "\<lambda>s. length s = 24" "''not-an-id''"
      "Some [\<lparr>userId = ''not-an-id'', strategyId = ''s'', tradeDate = 0, riskLevel = Some ''low'',
             outcome = 5, win = True\<rparr>]" 0 1]
  by simp

text \<open>
  C1. For every trade set the pipeline succeeds, and a pair of a strategy and a win rate
  is listed as underperforming exactly when the strategy has at least one trade, the
  rate is its win rate (wins over total, 0 for no trade) and the rate is strictly below
  one half; a rate of exactly one half is not listed. Every entry of the strategy facet
  carries that win rate, and it lies between 0 and 1.
\<close>

theorem underperforming_iff:
  "\<exists>result. analyse ts = Inr result \<and>
     (\<forall>k r. (k, r) \<in> set (underperformingStrategies (buildReport u replyTime result)) \<longleftrightarrow>
               0 < totalOf k ts \<and> r = winRateOf k ts \<and> r < 1 / 2) \<and>
     (\<forall>s \<in> set (byStrategy result).
        ss_winRate s = winRateOf (ss_strategyId s) ts \<and> 0 \<le> ss_winRate s \<and> ss_winRate s \<le> 1)"
proof -
  obtain result where an: "analyse ts = Inr result"
    and bs: "byStrategyFacet (map scored ts) = Inr (byStrategy result)"
    by (rule analyse_result)
  have rates: "\<forall>s \<in> set (byStrategy result).
      ss_winRate s = winRateOf (ss_strategyId s) ts \<and> 0 \<le> ss_winRate s \<and> ss_winRate s \<le> 1"
    unfolding byStrategy_set [OF bs] using winRateOf_range by (simp add: strategyEntry_fields)
  have "\<forall>k r. (k, r) \<in> set (underperformingStrategies (buildReport u replyTime result)) \<longleftrightarrow>
               0 < totalOf k ts \<and> r = winRateOf k ts \<and> r < 1 / 2"
    unfolding buildReport_fields using underperforming_member [OF bs] by blast
  with an rates show ?thesis by blast
qed

theorem underperforming_iff_witness:
  "\<exists>result.
     analyse
       [\<lparr>userId = ''u'', strategyId = ''a'', tradeDate = 0, riskLevel = Some ''low'',
         outcome = 5, win = True\<rparr>,
        \<lparr>userId = ''u'', strategyId = ''a'', tradeDate = 0, riskLevel = Some ''low'',
         outcome = - 5, win = False\<rparr>,
        \<lparr>userId = ''u'', strategyId = ''b'', tradeDate = 0, riskLevel = Some ''high'',
         outcome = - 1, win = False\<rparr>] = Inr result \<and>
     (''a'', 1 / 2) \<notin> set (underperformingStrategies (buildReport ''u'' 0 result)) \<and>
     (''b'', 0) \<in> set (underperformingStrategies (buildReport ''u'' 0 result)) \<and>
     byStrategy result \<noteq> []"
proof -
  let ?ts = "[\<lparr>userId = ''u'', strategyId = ''a'', tradeDate = 0, riskLevel = Some ''low'',
         outcome = 5, win = True\<rparr>,
        \<lparr>userId = ''u'', strategyId = ''a'', tradeDate = 0, riskLevel = Some ''low'',
         outcome = - 5, win = False\<rparr>,
        \<lparr>userId = ''u'', strategyId = ''b'', tradeDate = 0, riskLevel = Some ''high'',
         outcome = - 1, win = False\<rparr>]"
  obtain result where r: "analyse ?ts = Inr result"
    and m: "\<forall>k r. (k, r) \<in> set (underperformingStrategies (buildReport ''u'' 0 result)) \<longleftrightarrow>
               0 < totalOf k ?ts \<and> r = winRateOf k ?ts \<and> r < 1 / 2"
    using underperforming_iff [of ?ts "''u''" 0] by blast
  have a: "(''a'', 1 / 2) \<notin> set (underperformingStrategies (buildReport ''u'' 0 result))"
    by (simp add: m)
  have b: "(''b'', 0) \<in> set (underperformingStrategies (buildReport ''u'' 0 result))"
    by (simp add: m totalOf_def winRateOf_def winsOf_def)
  then have "byStrategy result \<noteq> []"
    by (auto simp: buildReport_fields underperforming_def)
  with r a b show ?thesis by blast
qed

text \<open>
  C10. For every trade set the three facets agree: the number of trades analysed in the
  report is the number of trades of the window and the length of the per-trade facet,
  the totals of the strategy entries add up to it, the counts of the risk entries add up
  to it, and no strategy entry has more wins than trades (both are natural numbers).
\<close>

theorem facets_consistent:
  "\<exists>result. analyse ts = Inr result \<and>
     totalTradesAnalyzed (buildReport u replyTime result) = length ts \<and>
     length (perTrade result) = length ts \<and>
     sum_list (map ss_total (byStrategy result)) = length ts \<and>
     sum_list (map rs_count (byRisk result)) = length ts \<and>
     (\<forall>s \<in> set (byStrategy result). ss_wins s \<le> ss_total s)"
proof -
  obtain result where an: "analyse ts = Inr result"
    and bs: "byStrategyFacet (map scored ts) = Inr (byStrategy result)"
    and rs: "byRisk result = byRiskFacet (map scored ts)"
    and pt: "perTrade result = perTradeFacet (map scored ts)"
    by (rule analyse_result)
  have n: "length (perTrade result) = length ts"
    by (simp add: pt perTradeFacet_def)
  then have "totalTradesAnalyzed (buildReport u replyTime result) = length ts"
    by (simp add: buildReport_fields)
  moreover have "sum_list (map ss_total (byStrategy result)) = length ts"
    using bs by (rule byStrategy_totals)
  moreover have "sum_list (map rs_count (byRisk result)) = length ts"
    unfolding rs by (rule byRisk_counts)
  moreover have "\<forall>s \<in> set (byStrategy result). ss_wins s \<le> ss_total s"
    unfolding byStrategy_set [OF bs] by (simp add: strategyEntry_fields winsOf_le_totalOf)
  ultimately show ?thesis using an n by blast
qed

theorem facets_consistent_witness:
  "\<exists>result.
     analyse
       [\<lparr>userId = ''u'', strategyId = ''a'', tradeDate = 0, riskLevel = Some ''low'',
         outcome = 5, win = True\<rparr>,
        \<lparr>userId = ''u'', strategyId = ''b'', tradeDate = 0, riskLevel = Some ''high'',
         outcome = - 1, win = False\<rparr>,
        \<lparr>userId = ''u'', strategyId = ''a'', tradeDate = 0, riskLevel = None,
         outcome = 2, win = False\<rparr>] = Inr result \<and>
     totalTradesAnalyzed (buildReport ''u'' 0 result) = 3 \<and>
     sum_list (map ss_total (byStrategy result)) = 3 \<and>
     sum_list (map rs_count (byRisk result)) = 3 \<and>
     byStrategy result \<noteq> []"
proof -
  let ?ts = "[\<lparr>userId = ''u'', strategyId = ''a'', tradeDate = 0, riskLevel = Some ''low'',
         outcome = 5, win = True\<rparr>,
        \<lparr>userId = ''u'', strategyId = ''b'', tradeDate = 0, riskLevel = Some ''high'',
         outcome = - 1, win = False\<rparr>,
        \<lparr>userId = ''u'', strategyId = ''a'', tradeDate = 0, riskLevel = None,
         outcome = 2, win = False\<rparr>]"
  obtain result where r: "analyse ?ts = Inr result"
    and t: "totalTradesAnalyzed (buildReport ''u'' 0 result) = length ?ts"
    and s: "sum_list (map ss_total (byStrategy result)) = length ?ts"
    and c: "sum_list (map rs_count (byRisk result)) = length ?ts"
    using facets_consistent [of ?ts "''u''" 0] by blast
  from s have "byStrategy result \<noteq> []" by auto
  with r t s c show ?thesis by (intro exI [of _ result]) simp
qed

text \<open>
  C6. The risk averages have exactly one entry for every risk level that occurs among the
  trades, so no entry has count 0; the count of an entry is the number of trades of its
  level and its average is the arithmetic mean of their outcomes; and the entries are
  sorted ascending by the level as a string, where high comes before low and low before
  medium.
\<close>

theorem riskAverages_grouped:
  "\<exists>result. analyse ts = Inr result \<and>
     rs_riskLevel ` set (riskAverages (buildReport u replyTime result)) = riskLevel ` set ts \<and>
     distinct (map rs_riskLevel (riskAverages (buildReport u replyTime result))) \<and>
     sorted (map rs_riskLevel (riskAverages (buildReport u replyTime result))) \<and>
     (\<forall>b \<in> set (riskAverages (buildReport u replyTime result)).
        0 < rs_count b \<and> rs_count b = length (outcomesOf (rs_riskLevel b) ts) \<and>
        rs_avgOutcome b = Some (mean (outcomesOf (rs_riskLevel b) ts))) \<and>
     Some ''high'' < Some ''low'' \<and> Some ''low'' < Some ''medium''"
proof -
  obtain result where an: "analyse ts = Inr result"
    and rs: "byRisk result = byRiskFacet (map scored ts)"
    by (rule analyse_result)
  have ra: "riskAverages (buildReport u replyTime result) = byRiskFacet (map scored ts)"
    by (simp add: buildReport_fields rs)
  have keys: "rs_riskLevel ` set (riskAverages (buildReport u replyTime result)) = riskLevel ` set ts"
    unfolding ra byRisk_set by (simp add: image_image riskEntry_fields)
  have entries: "\<forall>b \<in> set (riskAverages (buildReport u replyTime result)).
        0 < rs_count b \<and> rs_count b = length (outcomesOf (rs_riskLevel b) ts) \<and>
        rs_avgOutcome b = Some (mean (outcomesOf (rs_riskLevel b) ts))"
    unfolding ra byRisk_set using outcomesOf_nonempty by (simp add: riskEntry_fields)
  have dist: "distinct (map rs_riskLevel (riskAverages (buildReport u replyTime result)))"
    unfolding ra by (rule byRisk_distinct)
  have sort: "sorted (map rs_riskLevel (riskAverages (buildReport u replyTime result)))"
    unfolding ra by (rule byRisk_sorted)
  have order: "Some ''high'' < Some ''low''" "Some ''low'' < Some ''medium''"
    by simp_all
  show ?thesis
    by (intro exI [of _ result] conjI an keys entries order dist sort)
qed

theorem riskAverages_grouped_witness:
  "\<exists>result.
     analyse
       [\<lparr>userId = ''u'', strategyId = ''a'', tradeDate = 0, riskLevel = Some ''medium'',
         outcome = 5, win = True\<rparr>,
        \<lparr>userId = ''u'', strategyId = ''b'', tradeDate = 0, riskLevel = Some ''low'',
         outcome = - 1, win = False\<rparr>,
        \<lparr>userId = ''u'', strategyId = ''a'', tradeDate = 0, riskLevel = Some ''high'',
         outcome = 2, win = False\<rparr>,
        \<lparr>userId = ''u'', strategyId = ''a'', tradeDate = 0, riskLevel = Some ''low'',
         outcome = 4, win = False\<rparr>] = Inr result \<and>
     riskAverages (buildReport ''u'' 0 result) =
       [\<lparr>rs_riskLevel = Some ''high'', rs_avgOutcome = Some 2, rs_count = 1\<rparr>,
        \<lparr>rs_riskLevel = Some ''low'', rs_avgOutcome = Some (3 / 2), rs_count = 2\<rparr>,
        \<lparr>rs_riskLevel = Some ''medium'', rs_avgOutcome = Some 5, rs_count = 1\<rparr>]"
proof -
  let ?ts = "[\<lparr>userId = ''u'', strategyId = ''a'', tradeDate = 0, riskLevel = Some ''medium'',
         outcome = 5, win = True\<rparr>,
        \<lparr>userId = ''u'', strategyId = ''b'', tradeDate = 0, riskLevel = Some ''low'',
         outcome = - 1, win = False\<rparr>,
        \<lparr>userId = ''u'', strategyId = ''a'', tradeDate = 0, riskLevel = Some ''high'',
         outcome = 2, win = False\<rparr>,
        \<lparr>userId = ''u'', strategyId = ''a'', tradeDate = 0, riskLevel = Some ''low'',
         outcome = 4, win = False\<rparr>]"
  obtain result where r: "analyse ?ts = Inr result"
    using riskAverages_grouped [of ?ts] by blast
  then have "byRisk result = byRiskFacet (map scored ?ts)"
    by (auto simp: analyse_def projectStage_total facetStage_def split: sum.splits)
  also have "\<dots> = [\<lparr>rs_riskLevel = Some ''high'', rs_avgOutcome = Some 2, rs_count = 1\<rparr>,
        \<lparr>rs_riskLevel = Some ''low'', rs_avgOutcome = Some (3 / 2), rs_count = 2\<rparr>,
        \<lparr>rs_riskLevel = Some ''medium'', rs_avgOutcome = Some 5, rs_count = 1\<rparr>]"
    by (simp add: byRiskFacet_def group_by_def scored_def riskStep_def riskProject_def avg_op_def)
  finally show ?thesis using r by (simp add: buildReport_fields)
qed



text \<open>
  C5. When no trade of the store matches the user and the window, the handler replies
  200 with a report whose underperforming strategies, risk averages and suggestions are
  empty, whose correlation is null and whose number of trades analysed is 0. The
  handler has no branch for the empty case: these are the values of the general
  computation.
\<close>

theorem empty_window_report:
  assumes "isValid u" and "matchStage u (windowStart now) store = []"
  shows "\<exists>rep. optimize isValid (Some store) now replyTime u =
           (Response 200 (ReportBody rep), [AggregateQuery u (windowStart now)]) \<and>
         underperformingStrategies rep = [] \<and> riskAverages rep = [] \<and>
         riskOutcomeCorrelation rep = None \<and> suggestions rep = [] \<and>
         totalTradesAnalyzed rep = 0"
proof -
  have empty: "analyse [] = Inr \<lparr>byStrategy = [], byRisk = [], perTrade = []\<rparr>"
    by (simp add: analyse_def projectStage_def facetStage_def byStrategyFacet_def
        byRiskFacet_def perTradeFacet_def group_by_def)
  have rep: "optimize isValid (Some store) now replyTime u =
           (Response 200 (ReportBody (buildReport u replyTime \<lparr>byStrategy = [], byRisk = [], perTrade = []\<rparr>)),
            [AggregateQuery u (windowStart now)])"
    using assms by (simp add: optimize_def aggregate_def Let_def empty)
  have fields: "underperformingStrategies (buildReport u replyTime \<lparr>byStrategy = [], byRisk = [], perTrade = []\<rparr>) = []"
    "riskAverages (buildReport u replyTime \<lparr>byStrategy = [], byRisk = [], perTrade = []\<rparr>) = []"
    "riskOutcomeCorrelation (buildReport u replyTime \<lparr>byStrategy = [], byRisk = [], perTrade = []\<rparr>) = None"
    "suggestions (buildReport u replyTime \<lparr>byStrategy = [], byRisk = [], perTrade = []\<rparr>) = []"
    "totalTradesAnalyzed (buildReport u replyTime \<lparr>byStrategy = [], byRisk = [], perTrade = []\<rparr>) = 0"
    by (simp_all add: buildReport_fields underperforming_def correlation_def suggest_def
        lowRiskRule_def correlationRule_def)
  show ?thesis
    by (intro exI [of _ "buildReport u replyTime \<lparr>byStrategy = [], byRisk = [], perTrade = []\<rparr>"]
        conjI rep fields)
qed

theorem empty_window_report_witness:
  "length ''66f0a6b5c5f8b4d6e3a9f012'' = 24 \<and>
   matchStage ''66f0a6b5c5f8b4d6e3a9f012'' (windowStart 2592000000)
     [\<lparr>userId = ''66f0a6b5c5f8b4d6e3a9f012'', strategyId = ''a'', tradeDate = - 1,
       riskLevel = Some ''low'', outcome = 3, win = False\<rparr>,
      \<lparr>userId = ''66f0a6b5c5f8b4d6e3a9f013'', strategyId = ''a'', tradeDate = 5,
       riskLevel = Some ''low'', outcome = 3, win = True\<rparr>] = [] \<and>
   (\<exists>rep. optimize (\<lambda>s. length s = 24)
       (Some [\<lparr>userId = ''66f0a6b5c5f8b4d6e3a9f012'', strategyId = ''a'', tradeDate = - 1,
               riskLevel = Some ''low'', outcome = 3, win = False\<rparr>,
              \<lparr>userId = ''66f0a6b5c5f8b4d6e3a9f013'', strategyId = ''a'', tradeDate = 5,
               riskLevel = Some ''low'', outcome = 3, win = True\<rparr>])
       2592000000 2592000007 ''66f0a6b5c5f8b4d6e3a9f012'' =
         (Response 200 (ReportBody rep), [AggregateQuery ''66f0a6b5c5f8b4d6e3a9f012'' 0]) \<and>
       underperformingStrategies rep = [] \<and> riskAverages rep = [] \<and>
       riskOutcomeCorrelation rep = None \<and> suggestions rep = [] \<and>
       totalTradesAnalyzed rep = 0)"
proof -
  let ?store = "[\<lparr>userId = ''66f0a6b5c5f8b4d6e3a9f012'', strategyId = ''a'', tradeDate = - 1,
               riskLevel = Some ''low'', outcome = 3, win = False\<rparr>,
              \<lparr>userId = ''66f0a6b5c5f8b4d6e3a9f013'', strategyId = ''a'', tradeDate = 5,
               riskLevel = Some ''low'', outcome = 3, win = True\<rparr>]"
  have valid: "length ''66f0a6b5c5f8b4d6e3a9f012'' = 24"
    by simp
  have w: "windowStart 2592000000 = 0"
    by (simp add: windowStart_def days_def)
  have none: "matchStage ''66f0a6b5c5f8b4d6e3a9f012'' (windowStart 2592000000) ?store = []"
    unfolding w by (simp add: matchStage_def)
  note run = empty_window_report [where isValid = "\<lambda>s. length s = 24"
        and u = "''66f0a6b5c5f8b4d6e3a9f012''" and store = ?store and now = 2592000000
        and replyTime = 2592000007, OF valid none, unfolded w]
  show ?thesis
    by (intro conjI valid none run)
qed

text \<open>
  C2. For every trade set and every rounding, the correlation the loop computes is null
  exactly when there are fewer than 2 trades or the denominator it computes is 0, and
  is otherwise the computed quotient of the computed numerator by that denominator. In
  exact arithmetic this is null exactly when there are fewer than 2 trades or the
  denominator of the product-moment formula over the points (risk score, outcome) is
  0, which is when all risk scores or all outcomes are equal, and is otherwise the
  coefficient, which lies between -1 and 1. The rounded result need not be the
  coefficient.
\<close>

theorem correlation_computed:
  "\<exists>result. analyse ts = Inr result \<and>
     correlationIn rnd (perTrade result) =
       Inr (if length ts < 2 \<or> denominatorIn rnd (perTrade result) = Num 0 then None
            else Some (div_op rnd (numeratorIn rnd (perTrade result))
                         (denominatorIn rnd (perTrade result)))) \<and>
     correlationIn Num (perTrade result) =
       Inr (if length ts < 2 \<or> pearsonDenominator (points ts) = 0 then None
            else Some (Num (pearson (points ts)))) \<and>
     (pearsonDenominator (points ts) \<noteq> 0 \<longrightarrow>
        - 1 \<le> pearson (points ts) \<and> pearson (points ts) \<le> 1) \<and>
     (pearsonDenominator (points ts) = 0 \<longleftrightarrow>
        (\<forall>t \<in> set ts. \<forall>t' \<in> set ts.
           ordinalScore (riskLevel t) = ordinalScore (riskLevel t')) \<or>
        (\<forall>t \<in> set ts. \<forall>t' \<in> set ts. outcome t = outcome t'))"
proof -
  obtain result where an: "analyse ts = Inr result"
    and pt: "perTrade result = perTradeFacet (map scored ts)"
    by (rule analyse_result)
  have n: "length (perTrade result) = length ts"
    by (simp add: pt perTradeFacet_def)
  have rounded: "correlationIn rnd (perTrade result) =
       Inr (if length ts < 2 \<or> denominatorIn rnd (perTrade result) = Num 0 then None
            else Some (div_op rnd (numeratorIn rnd (perTrade result))
                         (denominatorIn rnd (perTrade result))))"
    using correlationIn_guarded [of rnd "perTrade result"] unfolding n .
  have exact: "correlationIn Num (perTrade result) =
       Inr (if length ts < 2 \<or> pearsonDenominator (points ts) = 0 then None
            else Some (Num (pearson (points ts))))"
    unfolding correlationIn_exact pt correlation_window ..
  have bound: "pearsonDenominator (points ts) \<noteq> 0 \<longrightarrow>
        - 1 \<le> pearson (points ts) \<and> pearson (points ts) \<le> 1"
    using pearson_bounded [of "points ts"] by simp
  show ?thesis
    by (intro exI [of _ result] conjI an rounded exact bound points_zero_variance)
qed

theorem correlation_computed_witness:
  "\<exists>result.
     analyse
       [\<lparr>userId = ''u'', strategyId = ''a'', tradeDate = 0, riskLevel = Some ''low'',
         outcome = 100000000, win = True\<rparr>,
        \<lparr>userId = ''u'', strategyId = ''a'', tradeDate = 0, riskLevel = Some ''medium'',
         outcome = 100000001, win = True\<rparr>] = Inr result \<and>
     correlationIn Num (perTrade result) = Inr (Some (Num 1)) \<and>
     correlationIn round64 (perTrade result) = Inr None"
proof -
  let ?ts = "[\<lparr>userId = ''u'', strategyId = ''a'', tradeDate = 0, riskLevel = Some ''low'',
         outcome = 100000000, win = True\<rparr>,
        \<lparr>userId = ''u'', strategyId = ''a'', tradeDate = 0, riskLevel = Some ''medium'',
         outcome = 100000001, win = True\<rparr>]"
  obtain result where r: "analyse ?ts = Inr result"
    and e: "correlationIn Num (perTrade result) =
       Inr (if length ?ts < 2 \<or> pearsonDenominator (points ?ts) = 0 then None
            else Some (Num (pearson (points ?ts))))"
    using correlation_computed [of ?ts Num] by blast
  have "perTrade result = perTradeFacet (map scored ?ts)"
    using r by (auto simp: analyse_def projectStage_total facetStage_def split: sum.splits)
  then have "correlationIn round64 (perTrade result) = Inr None"
    unfolding cancelled_perTrade by (simp only: cancelled_correlation)
  moreover have "correlationIn Num (perTrade result) = Inr (Some (Num 1))"
    unfolding e cancelled_points by (simp add: cancelled_pearson)
  ultimately show ?thesis using r by blast
qed

text \<open>
  In double arithmetic the claim fails for two trades with risk scores 1 and 2 and
  outcomes 100000000 and 100000001: both vary, the denominator of the formula is 1 and
  the coefficient is 1, but the squares of the outcomes round, the computed denominator
  is 0, and the program's correlation is null. For the outcomes 100000000 and 100000003
  the coefficient is 1 again, and the program's correlation is 1.0606601717798212, the
  double 4776788754394329 / 2^52, which is above 1.
\<close>

theorem correlation_null_despite_variance:
  "projectStage
     [\<lparr>userId = ''u'', strategyId = ''a'', tradeDate = 0, riskLevel = Some ''low'',
       outcome = 100000000, win = True\<rparr>,
      \<lparr>userId = ''u'', strategyId = ''a'', tradeDate = 0, riskLevel = Some ''medium'',
       outcome = 100000001, win = True\<rparr>] =
     Inr [\<lparr>pj_strategyId = ''a'', pj_riskLevel = Some ''low'', pj_outcome = 100000000,
           pj_win = True, pj_tradeDate = 0, pj_riskScore = 1\<rparr>,
          \<lparr>pj_strategyId = ''a'', pj_riskLevel = Some ''medium'', pj_outcome = 100000001,
           pj_win = True, pj_tradeDate = 0, pj_riskScore = 2\<rparr>] \<and>
   perTradeFacet
     [\<lparr>pj_strategyId = ''a'', pj_riskLevel = Some ''low'', pj_outcome = 100000000,
       pj_win = True, pj_tradeDate = 0, pj_riskScore = 1\<rparr>,
      \<lparr>pj_strategyId = ''a'', pj_riskLevel = Some ''medium'', pj_outcome = 100000001,
       pj_win = True, pj_tradeDate = 0, pj_riskScore = 2\<rparr>] =
     [\<lparr>pt_riskScore = 1, pt_outcome = 100000000\<rparr>, \<lparr>pt_riskScore = 2, pt_outcome = 100000001\<rparr>] \<and>
   correlationIn round64
     [\<lparr>pt_riskScore = 1, pt_outcome = 100000000\<rparr>, \<lparr>pt_riskScore = 2, pt_outcome = 100000001\<rparr>]
     = Inr None \<and>
   points
     [\<lparr>userId = ''u'', strategyId = ''a'', tradeDate = 0, riskLevel = Some ''low'',
       outcome = 100000000, win = True\<rparr>,
      \<lparr>userId = ''u'', strategyId = ''a'', tradeDate = 0, riskLevel = Some ''medium'',
       outcome = 100000001, win = True\<rparr>] = [(1, 100000000), (2, 100000001)] \<and>
   pearsonDenominator [(1, 100000000), (2, 100000001)] = 1 \<and>
   pearson [(1, 100000000), (2, 100000001)] = 1 \<and>
   correlationIn round64
     [\<lparr>pt_riskScore = 1, pt_outcome = 100000000\<rparr>, \<lparr>pt_riskScore = 2, pt_outcome = 100000003\<rparr>]
     = Inr (Some (Num (4776788754394329 / 4503599627370496))) \<and>
   (1::real) < 4776788754394329 / 4503599627370496 \<and>
   pearson [(1, 100000000), (2, 100000003)] = 1"
proof -
  have above: "(1::real) < 4776788754394329 / 4503599627370496"
    by simp
  have "projectStage
     [\<lparr>userId = ''u'', strategyId = ''a'', tradeDate = 0, riskLevel = Some ''low'',
       outcome = 100000000, win = True\<rparr>,
      \<lparr>userId = ''u'', strategyId = ''a'', tradeDate = 0, riskLevel = Some ''medium'',
       outcome = 100000001, win = True\<rparr>] =
     Inr [\<lparr>pj_strategyId = ''a'', pj_riskLevel = Some ''low'', pj_outcome = 100000000,
           pj_win = True, pj_tradeDate = 0, pj_riskScore = 1\<rparr>,
          \<lparr>pj_strategyId = ''a'', pj_riskLevel = Some ''medium'', pj_outcome = 100000001,
           pj_win = True, pj_tradeDate = 0, pj_riskScore = 2\<rparr>]"
    by (simp add: projectStage_def projectTrade_def riskScore_def)
  moreover have "perTradeFacet
     [\<lparr>pj_strategyId = ''a'', pj_riskLevel = Some ''low'', pj_outcome = 100000000,
       pj_win = True, pj_tradeDate = 0, pj_riskScore = 1\<rparr>,
      \<lparr>pj_strategyId = ''a'', pj_riskLevel = Some ''medium'', pj_outcome = 100000001,
       pj_win = True, pj_tradeDate = 0, pj_riskScore = 2\<rparr>] =
     [\<lparr>pt_riskScore = 1, pt_outcome = 100000000\<rparr>, \<lparr>pt_riskScore = 2, pt_outcome = 100000001\<rparr>]"
    by (simp add: perTradeFacet_def)
  ultimately show ?thesis
    using cancelled_correlation cancelled_points cancelled_pearson exceeded_correlation
      exceeded_pearson above
    by blast
qed

text \<open>
  C8. Once the identifier is valid and the store answers, the handler replies 200 with
  a report and never takes the failure path. The pipeline succeeds on every trade set;
  the projection of the strategy groups succeeds on every list of groups, as the
  division, which fails on a zero divisor, is only evaluated for a positive total, and
  a group with total 0 gets the win rate 0. Under every rounding, double arithmetic
  included, the correlation loop never divides by zero: it yields null when the
  computed denominator is 0 and the quotient otherwise.
\<close>

theorem computation_exception_free:
  assumes "isValid u"
  shows "(\<exists>rep. optimize isValid (Some store) now replyTime u =
             (Response 200 (ReportBody rep), [AggregateQuery u (windowStart now)])) \<and>
         (\<exists>result. analyse ts = Inr result) \<and>
         (\<exists>stats. traverse strategyProject gs = Inr stats) \<and>
         strategyProject (k, 0, w) =
           Inr \<lparr>ss_strategyId = k, ss_total = 0, ss_wins = w, ss_winRate = 0\<rparr> \<and>
         divide_op a 0 = Inl DivideByZero \<and>
         divide_checked rnd x (Num 0) = Inl DivideByZero \<and>
         correlationIn rnd pts =
           Inr (if length pts < 2 \<or> denominatorIn rnd pts = Num 0 then None
                else Some (div_op rnd (numeratorIn rnd pts) (denominatorIn rnd pts)))"
proof -
  obtain result where "optimize isValid (Some store) now replyTime u =
           (Response 200 (ReportBody (buildReport u replyTime result)),
            [AggregateQuery u (windowStart now)])"
    using assms by (rule optimize_valid)
  then have handler: "\<exists>rep. optimize isValid (Some store) now replyTime u =
             (Response 200 (ReportBody rep), [AggregateQuery u (windowStart now)])"
    by blast
  have pipeline: "\<exists>result. analyse ts = Inr result"
    using analyse_result [of ts] by blast
  have guard: "strategyProject (k, 0, w) =
           Inr \<lparr>ss_strategyId = k, ss_total = 0, ss_wins = w, ss_winRate = 0\<rparr>"
    by (simp add: strategyProject_total)
  have faults: "divide_op a 0 = Inl DivideByZero" "divide_checked rnd x (Num 0) = Inl DivideByZero"
    by (simp_all add: divide_op_def divide_checked_def)
  show ?thesis
    by (intro conjI handler pipeline guard faults strategyProject_never_fails
        correlationIn_guarded)
qed

theorem computation_exception_free_witness:
  "length ''66f0a6b5c5f8b4d6e3a9f012'' = 24 \<and>
   (\<exists>rep. optimize (\<lambda>s. length s = 24)
       (Some [\<lparr>userId = ''66f0a6b5c5f8b4d6e3a9f012'', strategyId = ''a'', tradeDate = 5,
               riskLevel = Some ''low'', outcome = 0, win = False\<rparr>])
       2592000000 2592000007 ''66f0a6b5c5f8b4d6e3a9f012'' =
         (Response 200 (ReportBody rep), [AggregateQuery ''66f0a6b5c5f8b4d6e3a9f012'' 0])) \<and>
   strategyProject (''a'', 0, 0) =
     Inr \<lparr>ss_strategyId = ''a'', ss_total = 0, ss_wins = 0, ss_winRate = 0\<rparr> \<and>
   (\<exists>stats. traverse strategyProject [(''a'', 0, 0), (''b'', 2, 1)] = Inr stats) \<and>
   correlationIn round64
     [\<lparr>pt_riskScore = 1, pt_outcome = 100000000\<rparr>, \<lparr>pt_riskScore = 2, pt_outcome = 100000001\<rparr>]
     = Inr None \<and>
   correlationIn Num [\<lparr>pt_riskScore = 1, pt_outcome = 1\<rparr>, \<lparr>pt_riskScore = 3, pt_outcome = 0\<rparr>]
     = Inr (Some (Num (- 1)))"
proof -
  have valid: "length ''66f0a6b5c5f8b4d6e3a9f012'' = 24"
    by simp
  have w: "windowStart 2592000000 = 0"
    by (simp add: windowStart_def days_def)
  note run = computation_exception_free [where isValid = "\<lambda>s. length s = 24"
        and u = "''66f0a6b5c5f8b4d6e3a9f012''"
        and store = "[\<lparr>userId = ''66f0a6b5c5f8b4d6e3a9f012'', strategyId = ''a'', tradeDate = 5,
               riskLevel = Some ''low'', outcome = 0, win = False\<rparr>]"
        and now = 2592000000 and replyTime = 2592000007 and ts = "[]"
        and gs = "[(''a'', 0, 0), (''b'', 2, 1)]" and k = "''a''" and w = 0 and a = 1
        and x = "Num 1" and rnd = round64
        and pts = "[\<lparr>pt_riskScore = 1, pt_outcome = 100000000\<rparr>,
                    \<lparr>pt_riskScore = 2, pt_outcome = 100000001\<rparr>]",
        OF valid, unfolded w]
  note exact = computation_exception_free [where isValid = "\<lambda>s. length s = 24"
        and u = "''66f0a6b5c5f8b4d6e3a9f012''" and rnd = Num
        and pts = "[\<lparr>pt_riskScore = 1, pt_outcome = 1\<rparr>, \<lparr>pt_riskScore = 3, pt_outcome = 0\<rparr>]",
        OF valid, THEN conjunct2, THEN conjunct2, THEN conjunct2, THEN conjunct2,
        THEN conjunct2, THEN conjunct2]
  have null: "correlationIn round64
     [\<lparr>pt_riskScore = 1, pt_outcome = 100000000\<rparr>, \<lparr>pt_riskScore = 2, pt_outcome = 100000001\<rparr>]
     = Inr None"
    using run [THEN conjunct2, THEN conjunct2, THEN conjunct2, THEN conjunct2,
        THEN conjunct2, THEN conjunct2]
    by (simp add: cancelled_denominator)
  have d: "denominatorIn Num [\<lparr>pt_riskScore = 1, pt_outcome = 1\<rparr>, \<lparr>pt_riskScore = 3, pt_outcome = 0\<rparr>] = Num 2"
    by (simp add: denominatorIn_exact addTrade_def zeroSums_def denomLeft_def denomRight_def
        js_sqrt_def)
  have n: "numeratorIn Num [\<lparr>pt_riskScore = 1, pt_outcome = 1\<rparr>, \<lparr>pt_riskScore = 3, pt_outcome = 0\<rparr>] = Num (- 2)"
    by (simp add: exact_parts addTrade_def zeroSums_def numerator_def)
  have quotient: "correlationIn Num [\<lparr>pt_riskScore = 1, pt_outcome = 1\<rparr>, \<lparr>pt_riskScore = 3, pt_outcome = 0\<rparr>]
     = Inr (Some (Num (- 1)))"
    unfolding exact d n by simp
  show ?thesis
    by (intro conjI valid null quotient run [THEN conjunct1]
        run [THEN conjunct2, THEN conjunct2, THEN conjunct1]
        run [THEN conjunct2, THEN conjunct2, THEN conjunct2, THEN conjunct1])
qed




end
